theory Spec2Isabelle
  imports Main "HOL-Library.Signed_Division" "HOL-Library.Sublist"
begin

section \<open>Shared data model (pkg/types, pkg/errors)\<close>

text \<open>
  Go strings and byte slices are sequences of bytes; both are modelled as \<open>string\<close>
  (a list of 8-bit characters). \<open>TTSChunk.Offset\<close> and \<open>TTSChunk.Duration\<close> are
  \<open>float64\<close> fields that carry tick counts (units of 100 ns) read from JSON numbers;
  they are modelled as \<open>int\<close>, which is exact for integral values below \<open>2 ^ 53\<close>.
\<close>

datatype error =
    UnknownResponseError string
  | UnexpectedResponseError string
  | NoAudioReceivedError string
  | WebSocketError string
  | SkewAdjustmentError string
  | Errorf string
  | Panic string

record TTSConfig =
  Voice :: string
  Rate :: string
  Volume :: string
  Pitch :: string
  Boundary :: string

record TTSChunk =
  Type :: string
  Data :: string
  Duration :: int
  Offset :: int
  Text :: string

record CommunicateState =
  PartialText :: string
  OffsetCompensation :: int
  LastDurationOffset :: int
  StreamWasCalled :: bool

section \<open>Library text helpers\<close>

text \<open>
  \<open>asciiSpace\<close> is the table of the same name in Go's \<open>bytes\<close> and \<open>strings\<close>
  packages: tab, line feed, vertical tab, form feed, carriage return and space.
  \<open>TrimSpace\<close> and \<open>Fields\<close> follow the library functions on ASCII input; on bytes
  above \<open>0x7F\<close> the library decodes UTF-8 and also treats the Unicode white space code
  points as space, which is outside this model. The frame decoder, which meets bytes
  of any value, does not use \<open>TrimSpace\<close>: it takes \<open>bytes.TrimSpace\<close> as a parameter
  \<open>trimSpace\<close>, so what is proved of it holds for the library function on every input.
\<close>

definition asciiSpace :: "char \<Rightarrow> bool" where
  "asciiSpace c \<longleftrightarrow>
     c = CHR 0x09 \<or> c = CHR 0x0A \<or> c = CHR 0x0B \<or> c = CHR 0x0C \<or> c = CHR 0x0D \<or> c = CHR 0x20"

definition TrimSpace :: "string \<Rightarrow> string" where
  "TrimSpace s = rev (dropWhile asciiSpace (rev (dropWhile asciiSpace s)))"

fun fieldsFrom :: "string \<Rightarrow> string \<Rightarrow> string list" where
  "fieldsFrom cur [] = (if cur = [] then [] else [cur])"
| "fieldsFrom cur (c # cs) =
     (if asciiSpace c
      then (if cur = [] then fieldsFrom [] cs else cur # fieldsFrom [] cs)
      else fieldsFrom (cur @ [c]) cs)"

definition Fields :: "string \<Rightarrow> string list" where
  "Fields s = fieldsFrom [] s"

text \<open>Decimal rendering of an integer, as \<open>%d\<close> (and \<open>%.0f\<close> on an integral value) print it.\<close>

definition digit :: "nat \<Rightarrow> char" where
  "digit d = ''0123456789'' ! d"

fun digits :: "nat \<Rightarrow> string" where
  "digits n = (if n < 10 then [digit n] else digits (n div 10) @ [digit (n mod 10)])"

declare digits.simps [simp del]

definition decimal :: "int \<Rightarrow> string" where
  "decimal i = (if i < 0 then CHR ''-'' # digits (nat (- i)) else digits (nat i))"

section \<open>Subtitle builder (pkg/submaker)\<close>

record Subtitle =
  Index :: int
  Start :: int
  End :: int
  Content :: string

record SubMaker =
  cues :: "Subtitle list"

definition NewSubMaker :: SubMaker where
  "NewSubMaker = \<lparr>cues = []\<rparr>"

text \<open>
  \<open>time.Duration(x / 10) * time.Microsecond\<close>: the conversion to \<open>int64\<close> truncates
  toward zero (\<open>sdiv\<close>), a microsecond is 1000 ns.
\<close>

definition Feed :: "SubMaker \<Rightarrow> TTSChunk \<Rightarrow> error + SubMaker" where
  "Feed sm msg =
     (if Type msg \<noteq> ''WordBoundary'' \<and> Type msg \<noteq> ''SentenceBoundary''
      then Inl (Errorf (''invalid message type, expected 'WordBoundary' or 'SentenceBoundary', got ''
                        @ [CHR 0x27] @ Type msg @ [CHR 0x27]))
      else Inr (sm\<lparr>cues := cues sm @
             [\<lparr>Index = int (length (cues sm)) + 1,
               Start = (Offset msg sdiv 10) * 1000,
               End = ((Offset msg + Duration msg) sdiv 10) * 1000,
               Content = Text msg\<rparr>]\<rparr>))"

text \<open>The loop \<open>for _, cue := range sm.cues[1:]\<close> of \<open>MergeCues\<close>.\<close>

fun mergeLoop :: "int \<Rightarrow> Subtitle \<Rightarrow> Subtitle list \<Rightarrow> Subtitle list \<Rightarrow> Subtitle list" where
  "mergeLoop words currentCue [] newCues = newCues @ [currentCue]"
| "mergeLoop words currentCue (cue # rest) newCues =
     (if int (length (Fields (Content currentCue))) < words
      then mergeLoop words
             (currentCue\<lparr>End := End cue, Content := Content currentCue @ '' '' @ Content cue\<rparr>)
             rest newCues
      else mergeLoop words cue rest (newCues @ [currentCue]))"

text \<open>The loop \<open>for i := range newCues { newCues[i].Index = i + 1 }\<close>, started at \<open>i\<close>.\<close>

fun updateIndices :: "int \<Rightarrow> Subtitle list \<Rightarrow> Subtitle list" where
  "updateIndices i [] = []"
| "updateIndices i (c # cs) = c\<lparr>Index := i + 1\<rparr> # updateIndices (i + 1) cs"

definition MergeCues :: "SubMaker \<Rightarrow> int \<Rightarrow> error + SubMaker" where
  "MergeCues sm words =
     (if words \<le> 0
      then Inl (Errorf (''invalid number of words to merge, expected > 0, got '' @ decimal words))
      else (case cues sm of
              [] \<Rightarrow> Inr sm
            | c0 # rest \<Rightarrow> Inr (sm\<lparr>cues := updateIndices 0 (mergeLoop words c0 rest [])\<rparr>)))"

text \<open>
  A caller's use of a SubMaker: a finite sequence of \<open>Feed\<close> and \<open>MergeCues\<close> calls.
  A call that returns an error has not assigned \<open>sm.cues\<close>, so the SubMaker is as before.
\<close>

datatype call = CallFeed TTSChunk | CallMergeCues int

definition perform :: "SubMaker \<Rightarrow> call \<Rightarrow> error + SubMaker" where
  "perform sm c = (case c of CallFeed msg \<Rightarrow> Feed sm msg | CallMergeCues words \<Rightarrow> MergeCues sm words)"

fun performAll :: "SubMaker \<Rightarrow> call list \<Rightarrow> SubMaker" where
  "performAll sm [] = sm"
| "performAll sm (c # cs) =
     (case perform sm c of Inl e \<Rightarrow> performAll sm cs | Inr sm' \<Rightarrow> performAll sm' cs)"

section \<open>Byte-slice helpers (Go's bytes package)\<close>

text \<open>
  \<open>bytesIndex s sep\<close> is \<open>bytes.Index\<close>: the position of the first occurrence of \<open>sep\<close>
  in \<open>s\<close>, or \<open>-1\<close>; \<open>bytesLastIndex\<close> is \<open>bytes.LastIndex\<close>; \<open>slice s lo hi\<close> is
  \<open>s[lo:hi]\<close> for \<open>0 \<le> lo \<le> hi \<le> len(s)\<close>.
\<close>

fun bytesIndex :: "string \<Rightarrow> string \<Rightarrow> int" where
  "bytesIndex [] sep = (if sep = [] then 0 else - 1)"
| "bytesIndex (c # cs) sep =
     (if prefix sep (c # cs) then 0
      else (let i = bytesIndex cs sep in if i < 0 then - 1 else i + 1))"

fun bytesLastIndex :: "string \<Rightarrow> string \<Rightarrow> int" where
  "bytesLastIndex [] sep = (if sep = [] then 0 else - 1)"
| "bytesLastIndex (c # cs) sep =
     (let i = bytesLastIndex cs sep
      in if 0 \<le> i then i + 1 else if prefix sep (c # cs) then 0 else - 1)"

definition bytesContains :: "string \<Rightarrow> string \<Rightarrow> bool" where
  "bytesContains s sep \<longleftrightarrow> bytesIndex s sep \<noteq> - 1"

definition slice :: "string \<Rightarrow> int \<Rightarrow> int \<Rightarrow> string" where
  "slice s lo hi = take (nat (hi - lo)) (drop (nat lo) s)"

text \<open>\<open>bytes.Split(s, sep)\<close> for a non-empty separator: all pieces, empty ones included.\<close>

function splitFrom :: "string \<Rightarrow> string \<Rightarrow> string \<Rightarrow> string list" where
  "splitFrom sep cur [] = [cur]"
| "splitFrom sep cur (c # cs) =
     (if sep \<noteq> [] \<and> prefix sep (c # cs)
      then cur # splitFrom sep [] (drop (length sep) (c # cs))
      else splitFrom sep (cur @ [c]) cs)"
  by pat_completeness auto
termination
  by (relation "measure (\<lambda>(sep, cur, s). length s)") (auto simp: neq_Nil_conv)

definition Split :: "string \<Rightarrow> string \<Rightarrow> string list" where
  "Split s sep = splitFrom sep [] s"

text \<open>\<open>bytes.SplitN(s, sep, 2)\<close>: cut at the first occurrence of \<open>sep\<close>, if there is one.\<close>

definition SplitN2 :: "string \<Rightarrow> string \<Rightarrow> string list" where
  "SplitN2 s sep =
     (let i = bytesIndex s sep
      in if i < 0 then [s] else [take (nat i) s, drop (nat i + length sep) s])"

definition CRLF :: string where
  "CRLF = [CHR 0x0D, CHR 0x0A]"

section \<open>Utilities (pkg/util)\<close>

text \<open>
  The header loop of \<open>ProcessWebsocketMessage\<close>: empty lines and lines without a colon are
  skipped, key and value are trimmed, a later line overrides an earlier one.
\<close>

fun headerLines ::
  "(string \<Rightarrow> string) \<Rightarrow> (string \<rightharpoonup> string) \<Rightarrow> string list \<Rightarrow> (string \<rightharpoonup> string)" where
  "headerLines trimSpace headers [] = headers"
| "headerLines trimSpace headers (line # lines) =
     (if length line = 0 then headerLines trimSpace headers lines
      else (case SplitN2 line '':'' of
              [key, val] \<Rightarrow>
                headerLines trimSpace (headers(trimSpace key \<mapsto> trimSpace val)) lines
            | _ \<Rightarrow> headerLines trimSpace headers lines))"

definition ProcessWebsocketMessage ::
  "(string \<Rightarrow> string) \<Rightarrow> string \<Rightarrow> (string \<rightharpoonup> string) \<times> string" where
  "ProcessWebsocketMessage trimSpace data =
     (let headerEndIndex = bytesIndex data (CRLF @ CRLF)
      in if headerEndIndex = - 1 then (Map.empty, data)
         else (headerLines trimSpace Map.empty (Split (slice data 0 headerEndIndex) CRLF),
               drop (nat (headerEndIndex + 4)) data))"

text \<open>
  The inner loop of \<open>SplitTextByByteLength\<close> that moves the split point in front of an
  unterminated \<open>&\<close>. It ends with a panic when the split point would become negative.
\<close>

lemma bytesLastIndex_less: "sep \<noteq> [] \<Longrightarrow> bytesLastIndex s sep < int (length s)"
  by (induction s) (auto simp: Let_def)

lemma bytesLastIndex_lower: "- 1 \<le> bytesLastIndex s sep"
  by (induction s) (auto simp: Let_def)

function ampersandLoop :: "string \<Rightarrow> int \<Rightarrow> error + int" where
  "ampersandLoop textBytes splitAt =
     (if bytesContains (slice textBytes 0 splitAt) ''&''
      then (let ampersandIndex = bytesLastIndex (slice textBytes 0 splitAt) ''&''
            in if bytesIndex (slice textBytes ampersandIndex splitAt) '';'' \<noteq> - 1
               then Inr splitAt
               else if ampersandIndex - 1 < 0
                    then Inl (Panic ''Maximum byte length is too small or invalid text'')
                    else if ampersandIndex - 1 = 0 then Inr 0
                    else ampersandLoop textBytes (ampersandIndex - 1))
      else Inr splitAt)"
  by pat_completeness auto
termination
proof (relation "measure (\<lambda>(textBytes, splitAt). nat splitAt)", goal_cases)
  case 1
  show ?case by simp
next
  case (2 textBytes splitAt ampersandIndex)
  have "bytesLastIndex (slice textBytes 0 splitAt) ''&'' < int (length (slice textBytes 0 splitAt))"
    by (rule bytesLastIndex_less) simp
  also have "\<dots> \<le> int (nat splitAt)"
    by (auto simp: slice_def)
  finally show ?case using 2 by (auto split: if_splits)
qed

declare ampersandLoop.simps [simp del]

lemma ampersandLoop_nonneg: "ampersandLoop textBytes splitAt = Inr r \<Longrightarrow> 0 \<le> splitAt \<Longrightarrow> 0 \<le> r"
proof (induction textBytes splitAt rule: ampersandLoop.induct)
  case (1 textBytes splitAt)
  from "1.prems" "1.IH" show ?case
    by (subst (asm) ampersandLoop.simps) (auto simp: Let_def split: if_splits)
qed

text \<open>The outer loop \<open>for len(textBytes) > byteLength\<close> and the code after it.\<close>

function splitLoop :: "int \<Rightarrow> string \<Rightarrow> string list \<Rightarrow> error + string list" where
  "splitLoop byteLength textBytes result =
     (if 0 < byteLength \<and> int (length textBytes) > byteLength
      then (let lastSpace = bytesLastIndex (slice textBytes 0 byteLength) '' '';
                splitAt = (if lastSpace = - 1 then byteLength else lastSpace)
            in case ampersandLoop textBytes splitAt of
                 Inl e \<Rightarrow> Inl e
               | Inr splitAt \<Rightarrow>
                   (let newText = TrimSpace (slice textBytes 0 splitAt);
                        result = (if length newText > 0 then result @ [newText] else result);
                        splitAt = (if splitAt = 0 then 1 else splitAt)
                    in splitLoop byteLength (drop (nat splitAt) textBytes) result))
      else (let newText = TrimSpace textBytes
            in Inr (if length newText > 0 then result @ [newText] else result)))"
  by pat_completeness auto
termination
proof (relation "measure (\<lambda>(byteLength, textBytes, result). length textBytes)", goal_cases)
  case 1
  show ?case by simp
next
  case (2 byteLength textBytes result lastSpace splitAt0 splitAt newText result' splitAt')
  have "0 \<le> splitAt0"
    using 2 bytesLastIndex_lower[of "slice textBytes 0 byteLength" "'' ''"] by auto
  then have "0 \<le> splitAt" using 2 ampersandLoop_nonneg by blast
  then have "0 < splitAt'" using 2 by auto
  moreover have "textBytes \<noteq> []" using 2 by auto
  ultimately show ?case by simp
qed

declare splitLoop.simps [simp del]

definition SplitTextByByteLength :: "string \<Rightarrow> int \<Rightarrow> error + string list" where
  "SplitTextByByteLength text byteLength =
     (if byteLength \<le> 0 then Inl (Panic ''byteLength must be greater than 0'')
      else splitLoop byteLength text [])"

definition MkSSML :: "TTSConfig \<Rightarrow> string \<Rightarrow> string" where
  "MkSSML tc escapedText =
     ''<speak version='' @ [CHR 0x27] @ ''1.0'' @ [CHR 0x27]
       @ '' xmlns='' @ [CHR 0x27] @ ''http://www.w3.org/2001/10/synthesis'' @ [CHR 0x27]
       @ '' xml:lang='' @ [CHR 0x27] @ ''en-US'' @ [CHR 0x27] @ ''>''
     @ ''<voice name='' @ [CHR 0x27] @ Voice tc @ [CHR 0x27] @ ''>''
     @ ''<prosody pitch='' @ [CHR 0x27] @ Pitch tc @ [CHR 0x27]
       @ '' rate='' @ [CHR 0x27] @ Rate tc @ [CHR 0x27]
       @ '' volume='' @ [CHR 0x27] @ Volume tc @ [CHR 0x27] @ ''>''
     @ escapedText
     @ ''</prosody>'' @ ''</voice>'' @ ''</speak>''"

definition SSMLHeadersPlusData :: "string \<Rightarrow> string \<Rightarrow> string \<Rightarrow> string" where
  "SSMLHeadersPlusData requestID timestamp ssml =
     ''X-RequestId:'' @ requestID @ CRLF
     @ ''Content-Type:application/ssml+xml'' @ CRLF
     @ ''X-Timestamp:'' @ timestamp @ ''Z'' @ CRLF
     @ ''Path:ssml'' @ CRLF @ CRLF
     @ ssml"


section \<open>Constants (internal/constants)\<close>

definition BaseURL :: string where
  "BaseURL = ''speech.platform.bing.com/consumer/speech/synthesize/readaloud''"

definition TrustedClientToken :: string where
  "TrustedClientToken = ''6A5AA1D4EAFF4E9FB37E23D68491D6F4''"

definition WSSURL :: string where
  "WSSURL = ''wss://'' @ BaseURL @ ''/edge/v1?TrustedClientToken='' @ TrustedClientToken"

definition ChromiumFullVersion :: string where
  "ChromiumFullVersion = ''130.0.2849.68''"

definition SecMSGECVersion :: string where
  "SecMSGECVersion = ''1-'' @ ChromiumFullVersion"

definition WinEpoch :: int where
  "WinEpoch = 11644473600"

definition SToNS :: int where
  "SToNS = 1000000000"

section \<open>Token generator and clock skew (internal/drm)\<close>

text \<open>
  The package variable \<open>clockSkewSeconds\<close> is passed and returned explicitly, and the
  reading of \<open>time.Now().UTC().Unix()\<close> is an argument \<open>now\<close>. Both are whole seconds:
  the only writer of the skew adds a difference of two Unix times. On such values the
  \<open>float64\<close> arithmetic of \<open>GenerateSecMSGEC\<close> is exact (the tick count is a multiple of
  \<open>2 ^ 9\<close> below \<open>2 ^ 62\<close>), so it is written over \<open>int\<close>, with \<open>math.Floor(x / 300)\<close>
  as \<open>div\<close>. The library functions \<open>sha256.Sum256\<close> and \<open>time.Parse(time.RFC1123, _)\<close>
  are parameters \<open>sha256\<close> and \<open>parseRFC1123\<close>.
\<close>

definition AdjClockSkewSeconds :: "int \<Rightarrow> int \<Rightarrow> int" where
  "AdjClockSkewSeconds clockSkewSeconds skewSeconds = clockSkewSeconds + skewSeconds"

definition GetUnixTimestamp :: "int \<Rightarrow> int \<Rightarrow> int" where
  "GetUnixTimestamp now clockSkewSeconds = now + clockSkewSeconds"

definition ParseRFC2616Date :: "(string \<Rightarrow> int option) \<Rightarrow> string \<Rightarrow> error + int" where
  "ParseRFC2616Date parseRFC1123 date =
     (case parseRFC1123 date of
        None \<Rightarrow> Inl (Errorf ''parsing time'')
      | Some t \<Rightarrow> Inr t)"

record httpResponse =
  StatusCode :: int
  Header :: "string \<rightharpoonup> string"

definition headerGet :: "httpResponse \<Rightarrow> string \<Rightarrow> string" where
  "headerGet resp key = (case Header resp key of None \<Rightarrow> [] | Some v \<Rightarrow> v)"

definition HandleClientResponseError ::
  "(string \<Rightarrow> int option) \<Rightarrow> int \<Rightarrow> httpResponse option \<Rightarrow> int \<Rightarrow> error option \<times> int" where
  "HandleClientResponseError parseRFC1123 now resp clockSkewSeconds =
     (case resp of
        None \<Rightarrow> (Some (SkewAdjustmentError ''no response''), clockSkewSeconds)
      | Some r \<Rightarrow>
          (let serverDate = headerGet r ''Date''
           in if serverDate = []
              then (Some (SkewAdjustmentError ''no server date in headers''), clockSkewSeconds)
              else (case ParseRFC2616Date parseRFC1123 serverDate of
                      Inl err \<Rightarrow>
                        (Some (SkewAdjustmentError (''failed to parse server date: '' @ serverDate)),
                         clockSkewSeconds)
                    | Inr serverDateParsed \<Rightarrow>
                        (let clientDate = GetUnixTimestamp now clockSkewSeconds
                         in (None, AdjClockSkewSeconds clockSkewSeconds
                                     (serverDateParsed - clientDate))))))"

definition hexDigit :: "nat \<Rightarrow> char" where
  "hexDigit d = ''0123456789ABCDEF'' ! d"

definition upperHex :: "string \<Rightarrow> string" where
  "upperHex bs = concat (map (\<lambda>b. [hexDigit (of_char b div 16), hexDigit (of_char b mod 16)]) bs)"

definition GenerateSecMSGEC :: "(string \<Rightarrow> string) \<Rightarrow> int \<Rightarrow> int \<Rightarrow> string" where
  "GenerateSecMSGEC sha256 now clockSkewSeconds =
     (let ticks = GetUnixTimestamp now clockSkewSeconds;
          ticks = ticks + WinEpoch;
          ticks = (ticks div 300) * 300;
          ticks = ticks * (SToNS div 100);
          strToHash = decimal ticks @ TrustedClientToken
      in upperHex (sha256 strToHash))"

section \<open>WebSocket client (internal/websocket)\<close>

record Client =
  conn :: "string option"
  proxy :: string
  connectTimeout :: int
  receiveTimeout :: int

definition NewClient :: "string \<Rightarrow> int \<Rightarrow> int \<Rightarrow> Client" where
  "NewClient p ct rt = \<lparr>conn = None, proxy = p, connectTimeout = ct, receiveTimeout = rt\<rparr>"

text \<open>
  What \<open>Connect\<close> meets outside the program: the successive readings of the clock, the
  successive results of \<open>util.ConnectID()\<close>, the result of \<open>url.Parse(c.proxy)\<close>, and
  the answer of \<open>dialer.DialContext\<close> to the first and to the second dial. A connection
  is represented by the URL it was dialled with.
\<close>

datatype dialResult = Connected | DialError error "httpResponse option"

record network =
  clock :: "nat \<Rightarrow> int"
  connectID :: "nat \<Rightarrow> string"
  proxyError :: "error option"
  dial :: "nat \<Rightarrow> string \<Rightarrow> dialResult"

record connectOutcome =
  connectErr :: "error option"
  client :: Client
  clockSkew :: int
  dialed :: "string list"

definition connectURL :: "string \<Rightarrow> string \<Rightarrow> string" where
  "connectURL secMSGEC connectionID =
     WSSURL @ ''&Sec-MS-GEC='' @ secMSGEC
       @ ''&Sec-MS-GEC-Version='' @ SecMSGECVersion
       @ ''&ConnectionId='' @ connectionID"

definition StatusForbidden :: int where
  "StatusForbidden = 403"

definition Connect ::
  "(string \<Rightarrow> string) \<Rightarrow> (string \<Rightarrow> int option) \<Rightarrow> network \<Rightarrow> Client \<Rightarrow> int \<Rightarrow> connectOutcome" where
  "Connect sha256 parseRFC1123 net c clockSkewSeconds =
     (let u = connectURL (GenerateSecMSGEC sha256 (clock net 0) clockSkewSeconds) (connectID net 0)
      in if proxy c \<noteq> [] \<and> proxyError net \<noteq> None
         then \<lparr>connectErr = proxyError net, client = c, clockSkew = clockSkewSeconds, dialed = []\<rparr>
         else (case dial net 0 u of
                 Connected \<Rightarrow>
                   \<lparr>connectErr = None, client = c\<lparr>conn := Some u\<rparr>,
                    clockSkew = clockSkewSeconds, dialed = [u]\<rparr>
               | DialError err resp \<Rightarrow>
                   (if resp \<noteq> None \<and> StatusCode (the resp) = StatusForbidden
                    then (case HandleClientResponseError parseRFC1123 (clock net 1) resp clockSkewSeconds of
                            (Some err', skew') \<Rightarrow>
                              \<lparr>connectErr = Some err', client = c, clockSkew = skew', dialed = [u]\<rparr>
                          | (None, skew') \<Rightarrow>
                              (let u' = connectURL (GenerateSecMSGEC sha256 (clock net 2) skew')
                                                   (connectID net 1)
                               in (case dial net 1 u' of
                                     Connected \<Rightarrow>
                                       \<lparr>connectErr = None, client = c\<lparr>conn := Some u'\<rparr>,
                                        clockSkew = skew', dialed = [u, u']\<rparr>
                                   | DialError err' resp' \<Rightarrow>
                                       \<lparr>connectErr = Some err', client = c,
                                        clockSkew = skew', dialed = [u, u']\<rparr>)))
                    else \<lparr>connectErr = Some err, client = c,
                          clockSkew = clockSkewSeconds, dialed = [u]\<rparr>)))"

text \<open>
  The two senders return the frame they hand to \<open>conn.WriteMessage\<close>; \<open>timestamp\<close> is
  the result of \<open>util.DateToString()\<close> and \<open>requestID\<close> that of \<open>util.ConnectID()\<close>.
\<close>

definition commandPayload :: string where
  "commandPayload =
     ''{\"context\":{\"synthesis\":{\"audio\":{\"metadataoptions\":{''
     @ ''\"sentenceBoundaryEnabled\":\"false\",\"wordBoundaryEnabled\":\"true\"},''
     @ ''\"outputFormat\":\"audio-24khz-48kbitrate-mono-mp3\"''
     @ ''}}}}''"

definition SendCommandRequest :: "Client \<Rightarrow> string \<Rightarrow> error + string" where
  "SendCommandRequest c timestamp =
     (if conn c = None then Inl (Errorf ''not connected'')
      else Inr (''X-Timestamp:'' @ timestamp @ CRLF
                @ ''Content-Type:application/json; charset=utf-8'' @ CRLF
                @ ''Path:speech.config'' @ CRLF @ CRLF
                @ commandPayload))"

definition SendSSMLRequest ::
  "Client \<Rightarrow> string \<Rightarrow> TTSConfig \<Rightarrow> string \<Rightarrow> string \<Rightarrow> error + string" where
  "SendSSMLRequest c partialText ttsConfig requestID timestamp =
     (if conn c = None then Inl (Errorf ''not connected'')
      else Inr (SSMLHeadersPlusData requestID timestamp (MkSSML ttsConfig partialText)))"

text \<open>
  A value decoded by \<open>json.Unmarshal\<close> into \<open>interface{}\<close>. An object is an association
  list in document order; a later duplicate key replaces an earlier one.
\<close>

datatype json =
    JNull
  | JBool bool
  | JNumber int
  | JString string
  | JArray "json list"
  | JObject "(string \<times> json) list"

definition member :: "(string \<times> json) list \<Rightarrow> string \<Rightarrow> json" where
  "member m key = (case map_of (rev m) key of None \<Rightarrow> JNull | Some v \<Rightarrow> v)"

text \<open>The type assertions \<open>v.(map[string]interface{})\<close>, \<open>v.(string)\<close>, \<open>v.(float64)\<close>, \<open>v.([]interface{})\<close>.\<close>

definition asObject :: "json \<Rightarrow> (string \<times> json) list option" where
  "asObject v = (case v of JObject m \<Rightarrow> Some m | _ \<Rightarrow> None)"

definition asString :: "json \<Rightarrow> string option" where
  "asString v = (case v of JString s \<Rightarrow> Some s | _ \<Rightarrow> None)"

definition asFloat64 :: "json \<Rightarrow> int option" where
  "asFloat64 v = (case v of JNumber n \<Rightarrow> Some n | _ \<Rightarrow> None)"

definition asArray :: "json \<Rightarrow> json list option" where
  "asArray v = (case v of JArray xs \<Rightarrow> Some xs | _ \<Rightarrow> None)"

text \<open>
  The body of the \<open>if metaType == "WordBoundary"\<close> block: \<open>None\<close> is one of its
  \<open>continue\<close> statements, \<open>Some\<close> its \<open>return\<close>.
\<close>

definition wordBoundaryChunk :: "string \<Rightarrow> (string \<times> json) list \<Rightarrow> TTSChunk option" where
  "wordBoundaryChunk metaType metaMap =
     (case asObject (member metaMap ''Data'') of
        None \<Rightarrow> None
      | Some metaData \<Rightarrow>
     (case asFloat64 (member metaData ''Offset'') of
        None \<Rightarrow> None
      | Some offset \<Rightarrow>
     (case asFloat64 (member metaData ''Duration'') of
        None \<Rightarrow> None
      | Some duration \<Rightarrow>
     (case asObject (member metaData ''text'') of
        None \<Rightarrow> None
      | Some textData \<Rightarrow>
     (case asString (member textData ''Text'') of
        None \<Rightarrow> None
      | Some text \<Rightarrow>
          Some \<lparr>Type = metaType, Data = [], Duration = duration, Offset = offset, Text = text\<rparr>)))))"

text \<open>The loop \<open>for _, metaObj := range metadata\<close> and the return after it.\<close>

fun metadataLoop :: "json list \<Rightarrow> error + TTSChunk" where
  "metadataLoop [] = Inl (UnexpectedResponseError ''no WordBoundary metadata found'')"
| "metadataLoop (metaObj # rest) =
     (case asObject metaObj of
        None \<Rightarrow> metadataLoop rest
      | Some metaMap \<Rightarrow>
          (case asString (member metaMap ''Type'') of
             None \<Rightarrow> metadataLoop rest
           | Some metaType \<Rightarrow>
               (if metaType = ''WordBoundary''
                then (case wordBoundaryChunk metaType metaMap of
                        None \<Rightarrow> metadataLoop rest
                      | Some chunk \<Rightarrow> Inr chunk)
                else if metaType = ''SessionEnd'' then metadataLoop rest
                else Inl (UnknownResponseError (''unknown metadata type: '' @ metaType)))))"

text \<open>
  \<open>parseMetadata\<close> takes the outcome of \<open>json.Unmarshal(data, &jsonData)\<close>: an error, or
  the decoded top-level object (the empty map for the document \<open>null\<close>).
\<close>

definition parseMetadata :: "error + (string \<times> json) list \<Rightarrow> error + TTSChunk" where
  "parseMetadata unmarshalled =
     (case unmarshalled of
        Inl err \<Rightarrow> Inl err
      | Inr jsonData \<Rightarrow>
          (case asArray (member jsonData ''Metadata'') of
             None \<Rightarrow> Inl (UnexpectedResponseError ''invalid metadata format'')
           | Some metadata \<Rightarrow> metadataLoop metadata))"

text \<open>
  The header loop of the binary branch: the key is not trimmed, the value is, by
  \<open>bytes.TrimSpace\<close> (the parameter \<open>trimSpace\<close>).
\<close>

fun binaryHeaderLines ::
  "(string \<Rightarrow> string) \<Rightarrow> (string \<rightharpoonup> string) \<Rightarrow> string list \<Rightarrow> (string \<rightharpoonup> string)" where
  "binaryHeaderLines trimSpace headers [] = headers"
| "binaryHeaderLines trimSpace headers (line # lines) =
     (if length line = 0 then binaryHeaderLines trimSpace headers lines
      else (case SplitN2 line '':'' of
              [key, val] \<Rightarrow> binaryHeaderLines trimSpace (headers(key \<mapsto> trimSpace val)) lines
            | _ \<Rightarrow> binaryHeaderLines trimSpace headers lines))"

definition Uint16 :: "string \<Rightarrow> nat" where
  "Uint16 b = of_char (b ! 0) * 256 + of_char (b ! 1)"

definition audioChunk :: "string \<Rightarrow> TTSChunk" where
  "audioChunk d = \<lparr>Type = ''audio'', Data = d, Duration = 0, Offset = 0, Text = []\<rparr>"

definition typeChunk :: "string \<Rightarrow> TTSChunk" where
  "typeChunk t = \<lparr>Type = t, Data = [], Duration = 0, Offset = 0, Text = []\<rparr>"

definition receiveBinary :: "(string \<Rightarrow> string) \<Rightarrow> string \<Rightarrow> error + TTSChunk" where
  "receiveBinary trimSpace data =
     (if length data < 2 then Inl (UnexpectedResponseError ''binary message is too short'')
      else (let headerLength = Uint16 (take 2 data)
            in if headerLength + 2 > length data
               then Inl (UnexpectedResponseError
                           ''header length is greater than the length of the data'')
               else (let audioBinaryData = drop (headerLength + 2) data;
                         headerData = take headerLength (drop 2 data);
                         headers = binaryHeaderLines trimSpace Map.empty (Split headerData CRLF)
                     in if headers ''Path'' \<noteq> Some ''audio''
                        then Inl (UnexpectedResponseError
                                    ''received binary message, but the path is not audio'')
                        else (case headers ''Content-Type'' of
                                None \<Rightarrow>
                                  (if length audioBinaryData = 0 then Inr (audioChunk [])
                                   else Inl (UnexpectedResponseError
                                     ''received binary message with no Content-Type, but with data''))
                              | Some contentType \<Rightarrow>
                                  (if contentType \<noteq> ''audio/mpeg''
                                   then Inl (UnexpectedResponseError
                                     (''received binary message, but with an unexpected Content-Type: ''
                                      @ contentType))
                                   else if length audioBinaryData = 0
                                   then Inl (UnexpectedResponseError
                                     ''received binary message, but it is missing the audio data'')
                                   else Inr (audioChunk audioBinaryData))))))"

definition receiveText ::
  "(string \<Rightarrow> error + (string \<times> json) list) \<Rightarrow> (string \<Rightarrow> string) \<Rightarrow> string
   \<Rightarrow> error + TTSChunk" where
  "receiveText unmarshal trimSpace data =
     (let (headers, messageData) = ProcessWebsocketMessage trimSpace data;
          path = (case headers ''Path'' of None \<Rightarrow> [] | Some p \<Rightarrow> p)
      in if path = ''audio.metadata'' then parseMetadata (unmarshal messageData)
         else if path = ''turn.end'' then Inr (typeChunk ''turn.end'')
         else if path \<noteq> ''response'' \<and> path \<noteq> ''turn.start''
         then Inl (UnknownResponseError (''unknown path received: '' @ path))
         else Inr (typeChunk path))"

text \<open>
  \<open>ReceiveMessage\<close> on the result of \<open>c.conn.ReadMessage()\<close>: a read error, or a message
  with its type (\<open>websocket.TextMessage = 1\<close>, \<open>websocket.BinaryMessage = 2\<close>). The
  library functions \<open>json.Unmarshal\<close> and \<open>bytes.TrimSpace\<close> are the parameters
  \<open>unmarshal\<close> and \<open>trimSpace\<close>.
\<close>

datatype readResult = ReadError string | Message int string

definition TextMessage :: int where
  "TextMessage = 1"

definition BinaryMessage :: int where
  "BinaryMessage = 2"

definition ReceiveMessage ::
  "(string \<Rightarrow> error + (string \<times> json) list) \<Rightarrow> (string \<Rightarrow> string) \<Rightarrow> Client \<Rightarrow> readResult
   \<Rightarrow> error + TTSChunk" where
  "ReceiveMessage unmarshal trimSpace c r =
     (if conn c = None then Inl (Errorf ''not connected'')
      else (case r of
              ReadError msg \<Rightarrow> Inl (WebSocketError msg)
            | Message messageType data \<Rightarrow>
                (if messageType = TextMessage then receiveText unmarshal trimSpace data
                 else if messageType = BinaryMessage then receiveBinary trimSpace data
                 else Inl (UnexpectedResponseError ''unexpected message type''))))"

section \<open>Streaming coordinator (pkg/communicate)\<close>

record Communicate =
  texts :: "string list"
  ttsConfig :: TTSConfig
  commProxy :: string
  commConnectTimeout :: int
  commReceiveTimeout :: int
  state :: CommunicateState

text \<open>
  What one call of \<open>streamPartialText\<close> meets outside \<open>Communicate\<close>: the result of
  \<open>client.Connect\<close>, the strings produced by \<open>util.DateToString()\<close> and
  \<open>util.ConnectID()\<close> for the two outbound frames, the results of the two
  \<open>WriteMessage\<close> calls, and the results of the successive \<open>client.ReceiveMessage()\<close>
  calls. When that list is used up the next read does not return, and the call is
  \<open>Blocked\<close>. The caller is taken to receive from the chunk channel until it is closed.
\<close>

record session =
  connectResult :: "error option"
  commandTimestamp :: string
  commandWriteResult :: "error option"
  ssmlRequestID :: string
  ssmlTimestamp :: string
  ssmlWriteResult :: "error option"
  received :: "(error + TTSChunk) list"

datatype outcome = Completed | Failed error | Blocked

text \<open>
  A run is what the caller and the service observe: the chunks sent on \<open>chunkChan\<close> in
  order, the frames handed to the connection, how the call ended, and the coordinator
  afterwards.
\<close>

record run =
  chunks :: "TTSChunk list"
  frames :: "string list"
  ending :: outcome
  after :: Communicate

text \<open>The receive loop of \<open>streamPartialText\<close>; the flag is \<open>audioWasReceived\<close>.\<close>

fun receiveLoop ::
  "bool \<Rightarrow> CommunicateState \<Rightarrow> (error + TTSChunk) list \<Rightarrow> TTSChunk list
   \<Rightarrow> outcome \<times> bool \<times> CommunicateState \<times> TTSChunk list" where
  "receiveLoop audioWasReceived st [] sent = (Blocked, audioWasReceived, st, sent)"
| "receiveLoop audioWasReceived st (Inl err # rest) sent = (Failed err, audioWasReceived, st, sent)"
| "receiveLoop audioWasReceived st (Inr chunk # rest) sent =
     (if Type chunk = ''audio''
      then receiveLoop True st rest (sent @ [chunk])
      else if Type chunk = ''WordBoundary'' \<or> Type chunk = ''SentenceBoundary''
      then receiveLoop audioWasReceived
             (st\<lparr>LastDurationOffset := Offset chunk + Duration chunk\<rparr>) rest (sent @ [chunk])
      else if Type chunk = ''turn.end''
      then (Completed, audioWasReceived,
            st\<lparr>OffsetCompensation := LastDurationOffset st + 8750000\<rparr>, sent)
      else receiveLoop audioWasReceived st rest sent)"

definition streamPartialText :: "Communicate \<Rightarrow> session \<Rightarrow> run" where
  "streamPartialText c s =
     (let cl = NewClient (commProxy c) (commConnectTimeout c) (commReceiveTimeout c)
      in case connectResult s of
           Some err \<Rightarrow> \<lparr>chunks = [], frames = [], ending = Failed err, after = c\<rparr>
         | None \<Rightarrow>
     (let cl = cl\<lparr>conn := Some []\<rparr>
      in case SendCommandRequest cl (commandTimestamp s) of
           Inl err \<Rightarrow> \<lparr>chunks = [], frames = [], ending = Failed err, after = c\<rparr>
         | Inr command \<Rightarrow>
     (case commandWriteResult s of
        Some err \<Rightarrow> \<lparr>chunks = [], frames = [command], ending = Failed err, after = c\<rparr>
      | None \<Rightarrow>
     (case SendSSMLRequest cl (PartialText (state c)) (ttsConfig c)
             (ssmlRequestID s) (ssmlTimestamp s) of
        Inl err \<Rightarrow> \<lparr>chunks = [], frames = [command], ending = Failed err, after = c\<rparr>
      | Inr ssml \<Rightarrow>
     (case ssmlWriteResult s of
        Some err \<Rightarrow> \<lparr>chunks = [], frames = [command, ssml], ending = Failed err, after = c\<rparr>
      | None \<Rightarrow>
     (case receiveLoop False (state c) (received s) [] of
        (Completed, audioWasReceived, st, sent) \<Rightarrow>
          \<lparr>chunks = sent, frames = [command, ssml],
           ending = (if \<not> audioWasReceived
                     then Failed (NoAudioReceivedError
                       ''no audio was received. Please verify that your parameters are correct.'')
                     else Completed),
           after = c\<lparr>state := st\<rparr>\<rparr>
      | (other, audioWasReceived, st, sent) \<Rightarrow>
          \<lparr>chunks = sent, frames = [command, ssml], ending = other,
           after = c\<lparr>state := st\<rparr>\<rparr>))))))"

text \<open>
  The loop \<open>for _, partialText := range c.texts\<close> of the goroutine started by \<open>Stream\<close>;
  \<open>sessions i\<close> is what the \<open>i\<close>-th call of \<open>streamPartialText\<close> meets.
\<close>

fun streamTexts :: "(nat \<Rightarrow> session) \<Rightarrow> nat \<Rightarrow> Communicate \<Rightarrow> string list \<Rightarrow> run" where
  "streamTexts sessions i c [] = \<lparr>chunks = [], frames = [], ending = Completed, after = c\<rparr>"
| "streamTexts sessions i c (partialText # rest) =
     (let r = streamPartialText (c\<lparr>state := (state c)\<lparr>PartialText := partialText\<rparr>\<rparr>) (sessions i)
      in if ending r = Completed
         then (let r' = streamTexts sessions (i + 1) (after r) rest
               in r'\<lparr>chunks := chunks r @ chunks r', frames := frames r @ frames r'\<rparr>)
         else r)"

text \<open>
  \<open>Stream\<close>, with the goroutine run to its end (or to the read that blocks it): the
  chunks delivered on the chunk channel, and the error on the error channel as
  \<open>Failed\<close>.
\<close>

definition Stream :: "(nat \<Rightarrow> session) \<Rightarrow> Communicate \<Rightarrow> run" where
  "Stream sessions c =
     (if StreamWasCalled (state c)
      then \<lparr>chunks = [], frames = [], ending = Failed (Errorf ''stream can only be called once''),
            after = c\<rparr>
      else streamTexts sessions 0 (c\<lparr>state := (state c)\<lparr>StreamWasCalled := True\<rparr>\<rparr>) (texts c))"

text \<open>The coordinator as \<open>NewCommunicate\<close> leaves it, for given segments and configuration.\<close>

definition newCommunicate :: "string list \<Rightarrow> TTSConfig \<Rightarrow> Communicate" where
  "newCommunicate ts cfg =
     \<lparr>texts = ts, ttsConfig = cfg, commProxy = [], commConnectTimeout = 10,
      commReceiveTimeout = 60,
      state = \<lparr>PartialText = [], OffsetCompensation = 0, LastDurationOffset = 0,
               StreamWasCalled = False\<rparr>\<rparr>"


section \<open>Notions used in the statements\<close>

text \<open>A cue is full for a threshold when \<open>MergeCues\<close> would not extend it.\<close>

definition full :: "int \<Rightarrow> Subtitle \<Rightarrow> bool" where
  "full n c \<longleftrightarrow> \<not> int (length (Fields (Content c))) < n"

definition indicesContiguous :: "SubMaker \<Rightarrow> bool" where
  "indicesContiguous sm \<longleftrightarrow> map Index (cues sm) = [1..int (length (cues sm))]"

text \<open>The bytes of a text that are not ASCII white space, in order.\<close>

definition visible :: "string \<Rightarrow> string" where
  "visible s = filter (\<lambda>c. \<not> asciiSpace c) s"

text \<open>
  A binary frame on the wire, as the service builds it: the length of the header
  block in two bytes, high byte first, then the header block, then the payload. And
  the header fields of a header block: its lines, cut at the first colon.
\<close>

definition binaryFrame :: "string \<Rightarrow> string \<Rightarrow> string" where
  "binaryFrame headerBlock payload =
     [char_of (length headerBlock div 256), char_of (length headerBlock mod 256)]
     @ headerBlock @ payload"

definition headerFields :: "(string \<Rightarrow> string) \<Rightarrow> string \<Rightarrow> (string \<rightharpoonup> string)" where
  "headerFields trimSpace headerBlock =
     binaryHeaderLines trimSpace Map.empty (Split headerBlock [CHR 0x0D, CHR 0x0A])"

text \<open>
  Reading a token back. \<open>decimalValue\<close> is the number a string of decimal digits
  denotes, and \<open>decimalNumeral\<close> holds of the digit strings without a leading zero.
  \<open>hexBytes\<close> reads a string of upper-case hexadecimal digit pairs as bytes, and
  accepts no other string.
\<close>

definition decimalValue :: "string \<Rightarrow> nat" where
  "decimalValue s = foldl (\<lambda>n c. 10 * n + (of_char c - 48)) 0 s"

definition decimalNumeral :: "string \<Rightarrow> bool" where
  "decimalNumeral s \<longleftrightarrow>
     s \<noteq> [] \<and> list_all (\<lambda>c. c \<in> set ''0123456789'') s \<and> (s = ''0'' \<or> hd s \<noteq> CHR ''0'')"

definition hexValue :: "char \<Rightarrow> nat option" where
  "hexValue c =
     (let n = of_char c :: nat
      in if 48 \<le> n \<and> n \<le> 57 then Some (n - 48)
         else if 65 \<le> n \<and> n \<le> 70 then Some (n - 55)
         else None)"

fun hexBytes :: "string \<Rightarrow> string option" where
  "hexBytes [] = Some []"
| "hexBytes [c] = None"
| "hexBytes (h # l # rest) =
     (case (hexValue h, hexValue l, hexBytes rest) of
        (Some a, Some b, Some bs) \<Rightarrow> Some (char_of (16 * a + b) # bs)
      | _ \<Rightarrow> None)"

section \<open>Example inputs\<close>

definition boundaryChunk :: "string \<Rightarrow> int \<Rightarrow> int \<Rightarrow> string \<Rightarrow> TTSChunk" where
  "boundaryChunk t off dur txt = \<lparr>Type = t, Data = [], Duration = dur, Offset = off, Text = txt\<rparr>"

definition helloChunk :: TTSChunk where
  "helloChunk = boundaryChunk ''WordBoundary'' 0 5000000 ''Hello,''"

definition worldChunk :: TTSChunk where
  "worldChunk = boundaryChunk ''WordBoundary'' 5000000 6000000 ''World!''"

definition againChunk :: TTSChunk where
  "againChunk = boundaryChunk ''WordBoundary'' 1000000 4000000 ''Again''"

definition fedCues :: SubMaker where
  "fedCues = \<lparr>cues =
     [\<lparr>Index = 1, Start = 0, End = 500000000, Content = ''Hello,''\<rparr>,
      \<lparr>Index = 2, Start = 500000000, End = 1100000000, Content = ''World!''\<rparr>,
      \<lparr>Index = 3, Start = 100000000, End = 500000000, Content = ''Again''\<rparr>]\<rparr>"

definition mergedCues :: SubMaker where
  "mergedCues = \<lparr>cues =
     [\<lparr>Index = 1, Start = 0, End = 1100000000, Content = ''Hello, World!''\<rparr>,
      \<lparr>Index = 2, Start = 100000000, End = 500000000, Content = ''Again''\<rparr>]\<rparr>"

definition wordConfig :: TTSConfig where
  "wordConfig =
     \<lparr>Voice = ''Microsoft Server Speech Text to Speech Voice (en-US, EmmaMultilingualNeural)'',
      Rate = ''+0%'', Volume = ''+0%'', Pitch = ''+0Hz'', Boundary = ''WordBoundary''\<rparr>"

definition sentenceConfig :: TTSConfig where
  "sentenceConfig = wordConfig\<lparr>Boundary := ''SentenceBoundary''\<rparr>"

text \<open>A session in which every call succeeds and the service sends the given chunks.\<close>

definition turn :: "TTSChunk list \<Rightarrow> session" where
  "turn cs =
     \<lparr>connectResult = None,
      commandTimestamp = ''Tue Nov 14 2023 22:13:20 GMT+0000 (Coordinated Universal Time)'',
      commandWriteResult = None,
      ssmlRequestID = ''0123456789abcdef0123456789abcdef'',
      ssmlTimestamp = ''Tue Nov 14 2023 22:13:20 GMT+0000 (Coordinated Universal Time)'',
      ssmlWriteResult = None,
      received = map Inr cs\<rparr>"

text \<open>
  Two turns: the first speaks \<open>Hello,\<close> (0 to 0.5 s) and \<open>World!\<close> (0.5 to 1.1 s), the
  second speaks \<open>Again\<close> at 0.1 s of its own audio.
\<close>

definition twoTurns :: "nat \<Rightarrow> session" where
  "twoTurns i =
     (if i = 0
      then turn [audioChunk ''x'', helloChunk, worldChunk, typeChunk ''turn.end'']
      else turn [audioChunk ''y'', againChunk, typeChunk ''turn.end''])"

definition connectedClient :: Client where
  "connectedClient = (NewClient [] 10 60)\<lparr>conn := Some ''wss://speech.platform.bing.com''\<rparr>"

text \<open>
  Two header blocks and five binary frames, byte by byte: the header length in two
  bytes, the header block with its lines ended by CR LF, the payload.
\<close>

definition blockPlain :: string where
  "blockPlain = ''Path:audio'' @ [CHR 0x0D, CHR 0x0A]"

definition blockMpeg :: string where
  "blockMpeg =
     ''Path:audio'' @ [CHR 0x0D, CHR 0x0A] @ ''Content-Type: audio/mpeg'' @ [CHR 0x0D, CHR 0x0A]"

definition blockOgg :: string where
  "blockOgg =
     ''Path:audio'' @ [CHR 0x0D, CHR 0x0A] @ ''Content-Type:audio/ogg'' @ [CHR 0x0D, CHR 0x0A]"

definition frameFlush :: string where
  "frameFlush = [CHR 0x00, CHR 0x0C] @ ''Path:audio'' @ [CHR 0x0D, CHR 0x0A]"

definition frameUntyped :: string where
  "frameUntyped = [CHR 0x00, CHR 0x0C] @ ''Path:audio'' @ [CHR 0x0D, CHR 0x0A] @ ''abc''"

definition frameEmptyMpeg :: string where
  "frameEmptyMpeg =
     [CHR 0x00, CHR 0x26] @ ''Path:audio'' @ [CHR 0x0D, CHR 0x0A]
     @ ''Content-Type: audio/mpeg'' @ [CHR 0x0D, CHR 0x0A]"

definition frameOgg :: string where
  "frameOgg =
     [CHR 0x00, CHR 0x24] @ ''Path:audio'' @ [CHR 0x0D, CHR 0x0A]
     @ ''Content-Type:audio/ogg'' @ [CHR 0x0D, CHR 0x0A] @ ''abc''"

definition frameMpeg :: string where
  "frameMpeg =
     [CHR 0x00, CHR 0x26] @ ''Path:audio'' @ [CHR 0x0D, CHR 0x0A]
     @ ''Content-Type: audio/mpeg'' @ [CHR 0x0D, CHR 0x0A] @ ''abc''"

text \<open>
  The SHA-256 digest of the one string the example below hashes (the tick count
  133444734000000000 followed by the trusted client token), as a one-entry table.
\<close>

definition sha256Table :: "string \<Rightarrow> string" where
  "sha256Table s =
     (if s = ''1334447340000000006A5AA1D4EAFF4E9FB37E23D68491D6F4''
      then [CHR 0x42, CHR 0x30, CHR 0x1B, CHR 0x33, CHR 0x55, CHR 0x78, CHR 0xFE, CHR 0xFD,
            CHR 0xAE, CHR 0x26, CHR 0x37, CHR 0xDE, CHR 0xD1, CHR 0xAB, CHR 0xD6, CHR 0x14,
            CHR 0x50, CHR 0x5D, CHR 0x43, CHR 0x25, CHR 0x59, CHR 0xEC, CHR 0x08, CHR 0x03,
            CHR 0x2B, CHR 0x82, CHR 0x04, CHR 0x84, CHR 0x83, CHR 0x72, CHR 0x6A, CHR 0xFF]
      else [])"

text \<open>Two metadata entries as the service sends them, decoded.\<close>

definition sentenceEntry :: json where
  "sentenceEntry = JObject
     [(''Type'', JString ''SentenceBoundary''),
      (''Data'', JObject
         [(''Offset'', JNumber 1000000), (''Duration'', JNumber 20000000),
          (''text'', JObject [(''Text'', JString ''Hello, World!''), (''Length'', JNumber 13),
                             (''BoundaryType'', JString ''SentenceBoundary'')])])]"

definition wordEntry :: json where
  "wordEntry = JObject
     [(''Type'', JString ''WordBoundary''),
      (''Data'', JObject
         [(''Offset'', JNumber 1000000), (''Duration'', JNumber 5000000),
          (''text'', JObject [(''Text'', JString ''Hello,''), (''Length'', JNumber 6),
                             (''BoundaryType'', JString ''WordBoundary'')])])]"

text \<open>
  Two rejections with status 403, one without and one with a \<open>Date\<close> header, a date
  parser that knows that one date, and a network with a clock 100,000,000 s behind the
  server whose first dial is rejected and whose second dial connects.
\<close>

definition forbiddenWithoutDate :: httpResponse where
  "forbiddenWithoutDate = \<lparr>StatusCode = 403, Header = Map.empty\<rparr>"

definition forbiddenWithDate :: httpResponse where
  "forbiddenWithDate =
     \<lparr>StatusCode = 403, Header = [''Date'' \<mapsto> ''Tue, 14 Nov 2023 22:13:20 GMT'']\<rparr>"

definition rfc1123Example :: "string \<Rightarrow> int option" where
  "rfc1123Example date =
     (if date = ''Tue, 14 Nov 2023 22:13:20 GMT'' then Some 1700000000 else None)"

definition rejectingNetwork :: "httpResponse \<Rightarrow> network" where
  "rejectingNetwork resp =
     \<lparr>clock = (\<lambda>k. 1600000000),
      connectID = (\<lambda>k. if k = 0 then ''00000000000000000000000000000001''
                         else ''00000000000000000000000000000002''),
      proxyError = None,
      dial = (\<lambda>k u. if k = 0 then DialError (Errorf ''websocket: bad handshake'') (Some resp)
                      else Connected)\<rparr>"

section \<open>Subtitle builder: merging and indices\<close>

lemma mergeLoop_acc: "mergeLoop n cur rest acc = acc @ mergeLoop n cur rest []"
proof (induction rest arbitrary: cur acc)
  case Nil
  show ?case by simp
next
  case (Cons c rest)
  show ?case
  proof (cases "int (length (Fields (Content cur))) < n")
    case True
    then show ?thesis using Cons.IH[of _ acc] by simp
  next
    case False
    then show ?thesis using Cons.IH[of c "acc @ [cur]"] Cons.IH[of c "[cur]"] by simp
  qed
qed

lemma mergeLoop_nonempty: "mergeLoop n cur rest acc \<noteq> []"
  by (induction rest arbitrary: cur acc) auto

text \<open>Every cue the loop closes is full; only the last one may fall short.\<close>

lemma mergeLoop_butlast_full: "list_all (full n) (butlast (mergeLoop n cur rest []))"
proof (induction rest arbitrary: cur)
  case Nil
  show ?case by simp
next
  case (Cons c rest)
  show ?case
  proof (cases "int (length (Fields (Content cur))) < n")
    case True
    then show ?thesis using Cons.IH by simp
  next
    case False
    have ne: "mergeLoop n c rest [] \<noteq> []" by (rule mergeLoop_nonempty)
    have "mergeLoop n cur (c # rest) [] = cur # mergeLoop n c rest []"
      using False by (simp, subst mergeLoop_acc, simp)
    then show ?thesis using Cons.IH[of c] False ne by (simp add: full_def)
  qed
qed

text \<open>On a list whose cues but the last are full, the loop copies the list.\<close>

lemma mergeLoop_fixed:
  "list_all (full n) (butlast (c # cs)) \<Longrightarrow> mergeLoop n c cs acc = acc @ c # cs"
proof (induction cs arbitrary: c acc)
  case Nil
  show ?case by simp
next
  case (Cons d cs)
  then show ?case by (simp add: full_def)
qed

lemma updateIndices_idem: "updateIndices i (updateIndices j cs) = updateIndices i cs"
  by (induction cs arbitrary: i j) auto

lemma updateIndices_Nil: "updateIndices i cs = [] \<longleftrightarrow> cs = []"
  by (cases cs) auto

lemma updateIndices_butlast: "butlast (updateIndices i cs) = updateIndices i (butlast cs)"
  by (induction cs arbitrary: i) (auto simp: updateIndices_Nil)

lemma updateIndices_full: "list_all (full n) (updateIndices i cs) = list_all (full n) cs"
  by (induction cs arbitrary: i) (auto simp: full_def)

lemma length_updateIndices: "length (updateIndices i cs) = length cs"
  by (induction cs arbitrary: i) auto

lemma Index_updateIndices: "map Index (updateIndices i cs) = [i + 1..i + int (length cs)]"
proof (induction cs arbitrary: i)
  case Nil
  show ?case by simp
next
  case (Cons c cs)
  have "[i + 1..i + int (length (c # cs))] = (i + 1) # [i + 1 + 1..i + 1 + int (length cs)]"
    by (subst upto.simps) (simp add: algebra_simps)
  then show ?case using Cons.IH[of "i + 1"] by simp
qed

lemma mergeLoop_stable:
  assumes "updateIndices 0 (mergeLoop n c0 rest []) = d # ds"
  shows "updateIndices 0 (mergeLoop n d ds []) = d # ds"
proof -
  have "list_all (full n) (butlast (d # ds))"
    using mergeLoop_butlast_full[of n c0 rest] assms
    by (metis updateIndices_butlast updateIndices_full)
  then have "mergeLoop n d ds [] = d # ds"
    using mergeLoop_fixed[of n d ds "[]"] by simp
  then show ?thesis using assms by (metis updateIndices_idem)
qed

text \<open>
  Claim C4. For every cue list a SubMaker holds and every positive threshold \<open>n\<close>,
  \<open>MergeCues n\<close> succeeds, and applying \<open>MergeCues n\<close> to its result succeeds and
  leaves that result as it is: the same cues, with the same indices, times and text.
\<close>

theorem MergeCues_idempotent:
  "0 < n \<Longrightarrow> \<exists>sm'. MergeCues sm n = Inr sm' \<and> MergeCues sm' n = Inr sm'"
proof (cases "cues sm")
  case Nil
  assume "0 < n"
  then show ?thesis using Nil by (simp add: MergeCues_def)
next
  case (Cons c0 rest)
  assume n: "0 < n"
  obtain d ds where d: "updateIndices 0 (mergeLoop n c0 rest []) = d # ds"
    using mergeLoop_nonempty[of n c0 rest "[]"]
    by (cases "updateIndices 0 (mergeLoop n c0 rest [])") (auto simp: updateIndices_Nil)
  show ?thesis using n Cons d mergeLoop_stable[OF d] by (simp add: MergeCues_def)
qed

text \<open>
  The three cues fed from \<open>Hello,\<close>, \<open>World!\<close> and \<open>Again\<close>, merged with threshold 2:
  the first two cues are combined, and a second merge changes nothing.
\<close>

theorem MergeCues_idempotent_witness:
  "MergeCues fedCues 2 = Inr mergedCues \<and> MergeCues mergedCues 2 = Inr mergedCues"
proof -
  have pos: "(0::int) < 2" by simp
  obtain sm' where once: "MergeCues fedCues 2 = Inr sm'" and twice: "MergeCues sm' 2 = Inr sm'"
    using MergeCues_idempotent[OF pos, of fedCues] by blast
  have "MergeCues fedCues 2 = Inr mergedCues"
    by (simp add: MergeCues_def fedCues_def mergedCues_def Fields_def asciiSpace_def)
  with once twice show ?thesis by simp
qed

lemma Feed_indices:
  "indicesContiguous sm \<Longrightarrow> Feed sm msg = Inr sm' \<Longrightarrow> indicesContiguous sm'"
  by (auto simp: Feed_def indicesContiguous_def upto_rec2 split: if_splits)

lemma MergeCues_indices:
  "indicesContiguous sm \<Longrightarrow> MergeCues sm n = Inr sm' \<Longrightarrow> indicesContiguous sm'"
  by (auto simp: MergeCues_def indicesContiguous_def Index_updateIndices length_updateIndices
      split: if_splits list.splits)

lemma performAll_indices: "indicesContiguous sm \<Longrightarrow> indicesContiguous (performAll sm cs)"
proof (induction cs arbitrary: sm)
  case Nil
  then show ?case by simp
next
  case (Cons c cs)
  show ?case
  proof (cases "perform sm c")
    case (Inl e)
    then show ?thesis using Cons by simp
  next
    case (Inr sm')
    then have "indicesContiguous sm'"
      using Cons.prems by (cases c) (auto simp: perform_def dest: Feed_indices MergeCues_indices)
    then show ?thesis using Inr Cons.IH by simp
  qed
qed

text \<open>
  Claim C9. After every finite sequence of \<open>Feed\<close> and \<open>MergeCues\<close> calls on a new
  SubMaker (a failing call leaves the SubMaker as it was), the \<open>Index\<close> fields of the
  cues are exactly \<open>1, 2, ..., N\<close> for \<open>N\<close> the number of cues.
\<close>

theorem indices_after_calls:
  "map Index (cues (performAll NewSubMaker cs))
     = [1..int (length (cues (performAll NewSubMaker cs)))]"
proof -
  have "indicesContiguous NewSubMaker"
    by (simp add: indicesContiguous_def NewSubMaker_def)
  then show ?thesis
    using performAll_indices[of NewSubMaker cs] by (simp add: indicesContiguous_def)
qed

text \<open>Three feeds, a rejected feed, a rejected merge and a merge: two cues, indexed 1 and 2.\<close>

theorem indices_after_calls_witness:
  "map Index (cues (performAll NewSubMaker
      [CallFeed helloChunk, CallFeed worldChunk, CallFeed (audioChunk ''x''),
       CallFeed againChunk, CallMergeCues 0, CallMergeCues 2])) = [1, 2]"
proof -
  have run: "performAll NewSubMaker
      [CallFeed helloChunk, CallFeed worldChunk, CallFeed (audioChunk ''x''),
       CallFeed againChunk, CallMergeCues 0, CallMergeCues 2] = mergedCues"
    by (simp add: perform_def Feed_def MergeCues_def NewSubMaker_def helloChunk_def
        worldChunk_def againChunk_def audioChunk_def boundaryChunk_def mergedCues_def
        signed_divide_int_def Fields_def asciiSpace_def)
  have "map Index (cues mergedCues) = [1..int (length (cues mergedCues))]"
    using indices_after_calls[of "[CallFeed helloChunk, CallFeed worldChunk,
       CallFeed (audioChunk ''x''), CallFeed againChunk, CallMergeCues 0, CallMergeCues 2]"]
    unfolding run .
  then show ?thesis
    unfolding run by (simp add: mergedCues_def upto.simps)
qed

section \<open>Text chunker: a byte lost at a split\<close>

text \<open>
  Claim C2 says that the segments of \<open>SplitTextByByteLength\<close> keep every byte of the
  text that is not white space. The code does not: when the entity back-off
  \<open>splitAt = ampersandIndex - 1\<close> lands on 0, the segment is empty and the statement
  \<open>if splitAt == 0 { splitAt = 1 }\<close> skips the byte in front of the \<open>&\<close>. On the
  escaped text \<open>a&lt;b\<close> (which is \<open>a<b\<close>) with limit 4 the segments are \<open>&lt;\<close>
  and \<open>b\<close>: the byte \<open>a\<close> is in no segment.
\<close>

theorem SplitTextByByteLength_loses_byte:
  "SplitTextByByteLength ''a&lt;b'' 4 = Inr [''&lt;'', ''b'']"
  by (simp add: SplitTextByByteLength_def splitLoop.simps ampersandLoop.simps slice_def
      bytesContains_def TrimSpace_def asciiSpace_def Let_def)

text \<open>
  What the splitter does keep, on ASCII text (where \<open>TrimSpace\<close> is the library's):
  the back-off is the only place where a visible byte can go missing.
\<close>

lemma visible_dropWhile: "visible (dropWhile asciiSpace s) = visible s"
  by (induction s) (auto simp: visible_def)

lemma visible_rev: "visible (rev s) = rev (visible s)"
  by (simp add: visible_def rev_filter)

lemma visible_TrimSpace: "visible (TrimSpace s) = visible s"
  by (simp add: TrimSpace_def visible_rev visible_dropWhile)

lemma visible_append: "visible (a @ b) = visible a @ visible b"
  by (simp add: visible_def)

lemma bytesIndex_absent: "c \<notin> set s \<Longrightarrow> bytesIndex s [c] = - 1"
  by (induction s) (auto simp: Let_def)

lemma bytesLastIndex_at:
  "0 \<le> bytesLastIndex s [c] \<Longrightarrow> s ! nat (bytesLastIndex s [c]) = c"
proof (induction s)
  case Nil
  then show ?case by simp
next
  case (Cons a s)
  show ?case
  proof (cases "0 \<le> bytesLastIndex s [c]")
    case True
    then show ?thesis using Cons.IH by (simp add: Let_def nat_add_distrib)
  next
    case False
    then show ?thesis using Cons.prems by (auto simp: Let_def split: if_splits)
  qed
qed

lemma set_slice: "set (slice s lo hi) \<subseteq> set s"
  by (auto simp: slice_def dest: in_set_takeD in_set_dropD)

lemma ampersandLoop_plain:
  "CHR ''&'' \<notin> set textBytes \<Longrightarrow> ampersandLoop textBytes splitAt = Inr splitAt"
proof -
  assume "CHR ''&'' \<notin> set textBytes"
  then have "CHR ''&'' \<notin> set (slice textBytes 0 splitAt)" using set_slice by fastforce
  then have "\<not> bytesContains (slice textBytes 0 splitAt) ''&''"
    by (simp add: bytesContains_def bytesIndex_absent)
  then show ?thesis by (subst ampersandLoop.simps) simp
qed

lemma splitLoop_plain:
  "CHR ''&'' \<notin> set textBytes \<Longrightarrow>
   \<exists>segs. splitLoop byteLength textBytes result = Inr (result @ segs)
        \<and> visible (concat segs) = visible textBytes"
proof (induction byteLength textBytes result rule: splitLoop.induct)
  case (1 byteLength textBytes result)
  show ?case
  proof (cases "0 < byteLength \<and> int (length textBytes) > byteLength")
    case False
    have v: "visible (concat (if length (TrimSpace textBytes) > 0 then [TrimSpace textBytes] else []))
        = visible textBytes"
      using visible_TrimSpace[of textBytes] by (auto simp: visible_def)
    have "splitLoop byteLength textBytes result
        = Inr (result @ (if length (TrimSpace textBytes) > 0 then [TrimSpace textBytes] else []))"
      using False by (subst splitLoop.simps) (auto simp: Let_def)
    with v show ?thesis by blast
  next
    case True
    define lastSpace where "lastSpace = bytesLastIndex (slice textBytes 0 byteLength) '' ''"
    define splitAt where "splitAt = (if lastSpace = - 1 then byteLength else lastSpace)"
    define newText where "newText = TrimSpace (slice textBytes 0 splitAt)"
    define result' where "result' = (if length newText > 0 then result @ [newText] else result)"
    define splitAt' where "splitAt' = (if splitAt = 0 then 1 else splitAt)"
    have amp: "ampersandLoop textBytes splitAt = Inr splitAt"
      using "1.prems" by (rule ampersandLoop_plain)
    have unfold: "splitLoop byteLength textBytes result
        = splitLoop byteLength (drop (nat splitAt') textBytes) result'"
      unfolding lastSpace_def splitAt_def newText_def result'_def splitAt'_def
      using True
      by (subst splitLoop.simps) (simp add: Let_def ampersandLoop_plain[OF "1.prems"])
    have "CHR ''&'' \<notin> set (drop (nat splitAt') textBytes)"
      using "1.prems" by (auto dest: in_set_dropD)
    from "1.IH"[OF True lastSpace_def splitAt_def amp newText_def result'_def splitAt'_def this]
    obtain segs where segs: "splitLoop byteLength (drop (nat splitAt') textBytes) result'
        = Inr (result' @ segs)" and vis: "visible (concat segs) = visible (drop (nat splitAt') textBytes)"
      by blast
    have lower: "- 1 \<le> lastSpace" unfolding lastSpace_def by (rule bytesLastIndex_lower)
    have nonneg: "0 \<le> splitAt" using lower True by (auto simp: splitAt_def)
    have kept: "visible newText @ visible (drop (nat splitAt') textBytes) = visible textBytes"
    proof (cases "splitAt = 0")
      case False
      then have "splitAt' = splitAt" by (simp add: splitAt'_def)
      moreover have "slice textBytes 0 splitAt = take (nat splitAt) textBytes"
        by (simp add: slice_def)
      ultimately show ?thesis
        unfolding newText_def visible_TrimSpace
        by (simp add: visible_append[symmetric])
    next
      case z: True
      then have ls: "lastSpace = 0" using True by (auto simp: splitAt_def split: if_splits)
      have "slice textBytes 0 byteLength ! nat lastSpace = CHR '' ''"
        unfolding lastSpace_def by (rule bytesLastIndex_at) (use ls lastSpace_def in simp)
      then have "textBytes ! 0 = CHR '' ''" using ls True by (simp add: slice_def)
      moreover have "textBytes \<noteq> []" using True by auto
      ultimately obtain rest where t: "textBytes = CHR '' '' # rest"
        by (cases textBytes) auto
      have "newText = []" using z by (simp add: newText_def slice_def TrimSpace_def)
      then show ?thesis using z t by (simp add: splitAt'_def visible_def asciiSpace_def)
    qed
    show ?thesis
    proof (cases "length newText > 0")
      case True
      then have "result' = result @ [newText]" by (simp add: result'_def)
      then have "splitLoop byteLength textBytes result = Inr (result @ (newText # segs))"
        using unfold segs by simp
      moreover have "visible (concat (newText # segs)) = visible textBytes"
        using vis kept by (simp add: visible_append)
      ultimately show ?thesis by blast
    next
      case False
      then have "result' = result" and "newText = []" by (simp_all add: result'_def)
      then have "splitLoop byteLength textBytes result = Inr (result @ segs)"
        "visible (concat segs) = visible textBytes"
        using unfold segs vis kept by (simp_all add: visible_def)
      then show ?thesis by blast
    qed
  qed
qed

text \<open>A text without \<open>&\<close> is split without a panic and without losing a visible byte.\<close>

lemma SplitTextByByteLength_plain:
  "0 < byteLength \<Longrightarrow> CHR ''&'' \<notin> set t \<Longrightarrow>
   \<exists>segs. SplitTextByByteLength t byteLength = Inr segs
        \<and> visible (concat segs) = visible t"
  using splitLoop_plain[of t byteLength "[]"] by (simp add: SplitTextByByteLength_def)

lemma prefix_rev_dropWhile: "prefix (rev (dropWhile P (rev y))) y"
proof -
  have "rev y = takeWhile P (rev y) @ dropWhile P (rev y)" by simp
  then have "y = rev (dropWhile P (rev y)) @ rev (takeWhile P (rev y))"
    by (metis rev_append rev_rev_ident)
  then show ?thesis by (metis prefixI)
qed

lemma subseq_TrimSpace: "subseq (TrimSpace s) s"
proof -
  have "subseq (TrimSpace s) (dropWhile asciiSpace s)"
    unfolding TrimSpace_def by (rule prefix_imp_subseq) (rule prefix_rev_dropWhile)
  moreover have "subseq (dropWhile asciiSpace s) s"
    by (rule suffix_imp_subseq) (rule suffix_dropWhile)
  ultimately show ?thesis by (rule subseq_order.order_trans)
qed

lemma subseq_take_drop: "k \<le> k' \<Longrightarrow> subseq (take k t @ drop k' t) t"
  by (metis add.commute append_take_drop_id drop_drop le_Suc_ex
    list_emb_append2 list_emb_append_mono subseq_order.order_refl)

lemma splitLoop_subseq:
  "splitLoop byteLength textBytes result = Inr r \<Longrightarrow>
   \<exists>segs. r = result @ segs \<and> subseq (concat segs) textBytes"
proof (induction byteLength textBytes result rule: splitLoop.induct)
  case (1 byteLength textBytes result)
  show ?case
  proof (cases "0 < byteLength \<and> int (length textBytes) > byteLength")
    case False
    have "splitLoop byteLength textBytes result
        = Inr (result @ (if length (TrimSpace textBytes) > 0 then [TrimSpace textBytes] else []))"
      using False by (subst splitLoop.simps) (auto simp: Let_def)
    moreover have "subseq (concat (if length (TrimSpace textBytes) > 0 then [TrimSpace textBytes] else [])) textBytes"
      using subseq_TrimSpace[of textBytes] by simp
    ultimately show ?thesis using "1.prems" by auto
  next
    case True
    define lastSpace where "lastSpace = bytesLastIndex (slice textBytes 0 byteLength) '' ''"
    define splitAt0 where "splitAt0 = (if lastSpace = - 1 then byteLength else lastSpace)"
    obtain splitAt where amp: "ampersandLoop textBytes splitAt0 = Inr splitAt"
      unfolding lastSpace_def splitAt0_def
      using "1.prems" True
      by (subst (asm) splitLoop.simps) (auto simp: Let_def split: sum.splits)
    define newText where "newText = TrimSpace (slice textBytes 0 splitAt)"
    define result' where "result' = (if length newText > 0 then result @ [newText] else result)"
    define splitAt' where "splitAt' = (if splitAt = 0 then 1 else splitAt)"
    have unfold: "splitLoop byteLength textBytes result
        = splitLoop byteLength (drop (nat splitAt') textBytes) result'"
      unfolding newText_def result'_def splitAt'_def
      using True amp[unfolded splitAt0_def lastSpace_def]
      by (subst splitLoop.simps) (simp add: Let_def)
    from "1.IH"[OF True lastSpace_def splitAt0_def amp newText_def result'_def splitAt'_def]
      "1.prems" unfold
    obtain segs where segs: "r = result' @ segs"
      and sub: "subseq (concat segs) (drop (nat splitAt') textBytes)"
      by auto
    have le: "nat splitAt \<le> nat splitAt'" by (simp add: splitAt'_def)
    have "subseq newText (take (nat splitAt) textBytes)"
      using subseq_TrimSpace[of "slice textBytes 0 splitAt"] by (simp add: newText_def slice_def)
    then have "subseq (newText @ concat segs) (take (nat splitAt) textBytes @ drop (nat splitAt') textBytes)"
      using sub by (rule list_emb_append_mono)
    then have all: "subseq (newText @ concat segs) textBytes"
      using subseq_take_drop[OF le, of textBytes] by (rule subseq_order.order_trans)
    show ?thesis
    proof (cases "length newText > 0")
      case True
      then have "r = result @ (newText # segs)" using segs by (simp add: result'_def)
      moreover have "subseq (concat (newText # segs)) textBytes" using all by simp
      ultimately show ?thesis by blast
    next
      case False
      then have "r = result @ segs" "newText = []" using segs by (simp_all add: result'_def)
      then show ?thesis using all by auto
    qed
  qed
qed

text \<open>
  Whenever the splitter returns, the bytes of its segments are bytes of the text in
  their order: nothing is repeated, moved or made up.
\<close>

lemma SplitTextByByteLength_subseq:
  "SplitTextByByteLength t byteLength = Inr segs \<Longrightarrow> subseq (concat segs) t"
  using splitLoop_subseq[of byteLength t "[]" segs]
  by (auto simp: SplitTextByByteLength_def split: if_splits)

section \<open>Metadata frames: only word boundaries are recognised\<close>

lemmas json_eval = parseMetadata_def member_def asArray_def asObject_def asString_def
  asFloat64_def wordBoundaryChunk_def sentenceEntry_def wordEntry_def boundaryChunk_def

text \<open>
  Claim C3 says that under boundary mode \<open>SentenceBoundary\<close> an entry of type
  \<open>SentenceBoundary\<close> becomes a Boundary event. \<open>parseMetadata\<close> has no access to the
  configuration and compares the type with \<open>WordBoundary\<close> only: a list holding one
  \<open>SentenceBoundary\<close> entry gives an unknown-response error, whatever the mode, while
  a \<open>SessionEnd\<close> entry followed by a \<open>WordBoundary\<close> entry gives the word's event.
\<close>

theorem parseMetadata_sentence_boundary:
  "parseMetadata (Inr [(''Metadata'', JArray [sentenceEntry])])
     = Inl (UnknownResponseError ''unknown metadata type: SentenceBoundary'')
   \<and> parseMetadata
       (Inr [(''Metadata'', JArray [JObject [(''Type'', JString ''SessionEnd'')], wordEntry])])
     = Inr (boundaryChunk ''WordBoundary'' 1000000 5000000 ''Hello,'')"
  by (simp add: json_eval)

text \<open>No input makes \<open>parseMetadata\<close> return an event of another type than \<open>WordBoundary\<close>.\<close>

lemma metadataLoop_word_only: "metadataLoop ms = Inr chunk \<Longrightarrow> Type chunk = ''WordBoundary''"
  by (induction ms rule: metadataLoop.induct)
     (auto simp: wordBoundaryChunk_def split: option.splits if_splits)

lemma parseMetadata_word_only: "parseMetadata u = Inr chunk \<Longrightarrow> Type chunk = ''WordBoundary''"
  by (auto simp: parseMetadata_def split: sum.splits option.splits dest: metadataLoop_word_only)

text \<open>The three kinds of entry, and the end of the list, as the loop treats them.\<close>

lemma metadataLoop_SessionEnd:
  "asObject e = Some m \<Longrightarrow> asString (member m ''Type'') = Some ''SessionEnd'' \<Longrightarrow>
   metadataLoop (e # rest) = metadataLoop rest"
  by simp

lemma metadataLoop_WordBoundary:
  "asObject e = Some m \<Longrightarrow> asString (member m ''Type'') = Some ''WordBoundary'' \<Longrightarrow>
   wordBoundaryChunk ''WordBoundary'' m = Some chunk \<Longrightarrow>
   metadataLoop (e # rest) = Inr chunk"
  by simp

lemma metadataLoop_other:
  "asObject e = Some m \<Longrightarrow> asString (member m ''Type'') = Some t \<Longrightarrow>
   t \<noteq> ''WordBoundary'' \<Longrightarrow> t \<noteq> ''SessionEnd'' \<Longrightarrow>
   metadataLoop (e # rest) = Inl (UnknownResponseError (''unknown metadata type: '' @ t))"
  by simp

lemma metadataLoop_end:
  "metadataLoop [] = Inl (UnexpectedResponseError ''no WordBoundary metadata found'')"
  by simp

section \<open>Binary frames\<close>

lemma Uint16_binaryFrame:
  "length headerBlock < 65536 \<Longrightarrow> Uint16 (take 2 (binaryFrame headerBlock payload)) = length headerBlock"
proof -
  assume lt: "length headerBlock < 65536"
  then have "length headerBlock div 256 mod 256 = length headerBlock div 256" by simp
  then show ?thesis by (simp add: Uint16_def binaryFrame_def)
qed

text \<open>
  Claim C6. Take a connected client and any binary frame whose header block parses to
  \<open>Path: audio\<close>: the two length bytes, the header block, the payload. What
  \<open>ReceiveMessage\<close> returns is decided by the \<open>Content-Type\<close> field and the payload.
  Without the field, an empty payload gives the audio chunk with no data and any
  other payload an unexpected-response error. With a field other than \<open>audio/mpeg\<close>
  the result is an unexpected-response error. With \<open>audio/mpeg\<close>, an empty payload
  gives an unexpected-response error and any other payload gives the audio chunk
  whose data are exactly the payload. This holds whatever function trims the header
  values, \<open>bytes.TrimSpace\<close> included.
\<close>

theorem ReceiveMessage_audio_frame:
  assumes "conn c \<noteq> None"
      and "length headerBlock < 65536"
      and "headerFields trimSpace headerBlock ''Path'' = Some ''audio''"
  shows "ReceiveMessage unmarshal trimSpace c (Message 2 (binaryFrame headerBlock payload)) =
     (case headerFields trimSpace headerBlock ''Content-Type'' of
        None \<Rightarrow>
          if payload = []
          then Inr \<lparr>Type = ''audio'', Data = [], Duration = 0, Offset = 0, Text = []\<rparr>
          else Inl (UnexpectedResponseError
                 ''received binary message with no Content-Type, but with data'')
      | Some contentType \<Rightarrow>
          if contentType \<noteq> ''audio/mpeg''
          then Inl (UnexpectedResponseError
                 (''received binary message, but with an unexpected Content-Type: ''
                  @ contentType))
          else if payload = []
          then Inl (UnexpectedResponseError
                 ''received binary message, but it is missing the audio data'')
          else Inr \<lparr>Type = ''audio'', Data = payload, Duration = 0, Offset = 0, Text = []\<rparr>)"
proof -
  have len: "Uint16 (take 2 (binaryFrame headerBlock payload)) = length headerBlock"
    using assms(2) by (rule Uint16_binaryFrame)
  have block: "take (length headerBlock) (drop 2 (binaryFrame headerBlock payload)) = headerBlock"
    and rest: "drop (length headerBlock + 2) (binaryFrame headerBlock payload) = payload"
    and long: "2 \<le> length (binaryFrame headerBlock payload)"
      "length headerBlock + 2 \<le> length (binaryFrame headerBlock payload)"
    by (simp_all add: binaryFrame_def)
  show ?thesis
    using assms(1,3)
    by (simp add: ReceiveMessage_def receiveBinary_def BinaryMessage_def TextMessage_def
        len block rest headerFields_def CRLF_def audioChunk_def Let_def
        split: option.splits)
       (simp add: binaryFrame_def)?
qed

lemma char_of_eq: "of_char c = (n::nat) mod 256 \<Longrightarrow> char_of n = c"
proof (rule of_char_eqI)
  assume "of_char c = n mod 256"
  then show "(of_char (char_of n) :: nat) = of_char c" by simp
qed

lemma lengthBytes:
  "char_of (0::nat) = CHR 0x00" "char_of (12::nat) = CHR 0x0C"
  "char_of (36::nat) = CHR 0x24" "char_of (38::nat) = CHR 0x26"
  by (rule char_of_eq, simp)+

lemma frames:
  "frameFlush = binaryFrame blockPlain []"
  "frameUntyped = binaryFrame blockPlain ''abc''"
  "frameEmptyMpeg = binaryFrame blockMpeg []"
  "frameOgg = binaryFrame blockOgg ''abc''"
  "frameMpeg = binaryFrame blockMpeg ''abc''"
  by (simp_all add: binaryFrame_def blockPlain_def blockMpeg_def blockOgg_def lengthBytes
      frameFlush_def frameUntyped_def frameEmptyMpeg_def frameOgg_def frameMpeg_def)

lemmas block_eval = headerFields_def Split_def SplitN2_def TrimSpace_def asciiSpace_def
  blockPlain_def blockMpeg_def blockOgg_def

lemma fields:
  "headerFields TrimSpace blockPlain = [''Path'' \<mapsto> ''audio'']"
  "headerFields TrimSpace blockMpeg = [''Path'' \<mapsto> ''audio'', ''Content-Type'' \<mapsto> ''audio/mpeg'']"
  "headerFields TrimSpace blockOgg = [''Path'' \<mapsto> ''audio'', ''Content-Type'' \<mapsto> ''audio/ogg'']"
  by (simp_all add: block_eval)

text \<open>
  The five cases on five frames given byte by byte, with header values trimmed of
  ASCII white space (which is what \<open>bytes.TrimSpace\<close> does on these bytes).
\<close>

theorem ReceiveMessage_audio_frame_witness:
  "\<forall>unmarshal.
     ReceiveMessage unmarshal TrimSpace connectedClient (Message 2 frameFlush)
       = Inr \<lparr>Type = ''audio'', Data = [], Duration = 0, Offset = 0, Text = []\<rparr>
   \<and> ReceiveMessage unmarshal TrimSpace connectedClient (Message 2 frameUntyped)
       = Inl (UnexpectedResponseError
           ''received binary message with no Content-Type, but with data'')
   \<and> ReceiveMessage unmarshal TrimSpace connectedClient (Message 2 frameEmptyMpeg)
       = Inl (UnexpectedResponseError
           ''received binary message, but it is missing the audio data'')
   \<and> ReceiveMessage unmarshal TrimSpace connectedClient (Message 2 frameOgg)
       = Inl (UnexpectedResponseError
           ''received binary message, but with an unexpected Content-Type: audio/ogg'')
   \<and> ReceiveMessage unmarshal TrimSpace connectedClient (Message 2 frameMpeg)
       = Inr \<lparr>Type = ''audio'', Data = ''abc'', Duration = 0, Offset = 0, Text = []\<rparr>"
proof (intro allI conjI)
  fix unmarshal :: "string \<Rightarrow> error + (string \<times> json) list"
  have c: "conn connectedClient \<noteq> None" by (simp add: connectedClient_def)
  have l: "length blockPlain < 65536" "length blockMpeg < 65536" "length blockOgg < 65536"
    by (simp_all add: blockPlain_def blockMpeg_def blockOgg_def)
  have path: "headerFields TrimSpace blockPlain ''Path'' = Some ''audio''"
    "headerFields TrimSpace blockMpeg ''Path'' = Some ''audio''"
    "headerFields TrimSpace blockOgg ''Path'' = Some ''audio''"
    by (simp_all add: fields)
  show "ReceiveMessage unmarshal TrimSpace connectedClient (Message 2 frameFlush)
       = Inr \<lparr>Type = ''audio'', Data = [], Duration = 0, Offset = 0, Text = []\<rparr>"
    unfolding frames
    by (simp add: ReceiveMessage_audio_frame[OF c l(1) path(1)] fields)
  show "ReceiveMessage unmarshal TrimSpace connectedClient (Message 2 frameUntyped)
       = Inl (UnexpectedResponseError
           ''received binary message with no Content-Type, but with data'')"
    unfolding frames
    by (simp add: ReceiveMessage_audio_frame[OF c l(1) path(1)] fields)
  show "ReceiveMessage unmarshal TrimSpace connectedClient (Message 2 frameEmptyMpeg)
       = Inl (UnexpectedResponseError
           ''received binary message, but it is missing the audio data'')"
    unfolding frames
    by (simp add: ReceiveMessage_audio_frame[OF c l(2) path(2)] fields)
  show "ReceiveMessage unmarshal TrimSpace connectedClient (Message 2 frameOgg)
       = Inl (UnexpectedResponseError
           ''received binary message, but with an unexpected Content-Type: audio/ogg'')"
    unfolding frames
    by (simp add: ReceiveMessage_audio_frame[OF c l(3) path(3)] fields)
  show "ReceiveMessage unmarshal TrimSpace connectedClient (Message 2 frameMpeg)
       = Inr \<lparr>Type = ''audio'', Data = ''abc'', Duration = 0, Offset = 0, Text = []\<rparr>"
    unfolding frames
    by (simp add: ReceiveMessage_audio_frame[OF c l(2) path(2)] fields)
qed

section \<open>Token generator\<close>

lemma below10: "d < 10 \<Longrightarrow> d = 0 \<or> d = 1 \<or> d = 2 \<or> d = 3 \<or> d = 4 \<or> d = 5 \<or> d = 6 \<or> d = 7 \<or> d = 8 \<or> d = (9::nat)"
  by arith

lemma below16: "d < 16 \<Longrightarrow> d = 0 \<or> d = 1 \<or> d = 2 \<or> d = 3 \<or> d = 4 \<or> d = 5 \<or> d = 6 \<or> d = 7 \<or> d = 8 \<or> d = 9
   \<or> d = 10 \<or> d = 11 \<or> d = 12 \<or> d = 13 \<or> d = 14 \<or> d = (15::nat)"
  by arith

lemma digit_value: "d < 10 \<Longrightarrow> of_char (digit d) = 48 + d"
  using below10[of d] by (auto simp: digit_def)

lemma digit_in: "d < 10 \<Longrightarrow> digit d \<in> set ''0123456789''"
  using below10[of d] by (auto simp: digit_def)

lemma digit_zero: "d < 10 \<Longrightarrow> digit d = CHR ''0'' \<longleftrightarrow> d = 0"
  using below10[of d] by (auto simp: digit_def)

lemma hexValue_hexDigit: "d < 16 \<Longrightarrow> hexValue (hexDigit d) = Some d"
  using below16[of d] by (auto simp: hexDigit_def hexValue_def)

lemma decimalValue_snoc: "decimalValue (s @ [c]) = 10 * decimalValue s + (of_char c - 48)"
  by (simp add: decimalValue_def)

lemma decimalValue_digits: "decimalValue (digits n) = n"
proof (induction n rule: digits.induct)
  case (1 n)
  show ?case
  proof (cases "n < 10")
    case True
    then show ?thesis by (subst digits.simps) (simp add: decimalValue_def digit_value)
  next
    case False
    then show ?thesis
      using "1.IH" by (subst digits.simps) (simp add: decimalValue_snoc digit_value)
  qed
qed

lemma digits_chars: "list_all (\<lambda>c. c \<in> set ''0123456789'') (digits n)"
proof (induction n rule: digits.induct)
  case (1 n)
  show ?case
  proof (cases "n < 10")
    case True
    then show ?thesis using digit_in[of n] by (subst digits.simps) simp
  next
    case False
    then show ?thesis
      using "1.IH" digit_in[of "n mod 10"] by (subst digits.simps) simp
  qed
qed

lemma digits_nonempty: "digits n \<noteq> []"
  by (subst digits.simps) simp

lemma digits_hd: "0 < n \<Longrightarrow> hd (digits n) \<noteq> CHR ''0''"
proof (induction n rule: digits.induct)
  case (1 n)
  show ?case
  proof (cases "n < 10")
    case True
    then show ?thesis using "1.prems" digit_zero[of n] by (subst digits.simps) simp
  next
    case False
    then have "0 < n div 10" by simp
    then show ?thesis
      using "1.IH" False digits_nonempty[of "n div 10"] by (subst digits.simps) simp
  qed
qed

lemma digits_zero: "digits 0 = ''0''"
  by (subst digits.simps) (simp add: digit_def)

lemma decimalNumeral_digits: "decimalNumeral (digits n)"
proof (cases "n = 0")
  case True
  then show ?thesis by (simp add: digits_zero decimalNumeral_def)
next
  case False
  then have "hd (digits n) \<noteq> CHR ''0''" using digits_hd[of n] by simp
  then show ?thesis
    unfolding decimalNumeral_def using digits_chars[of n] digits_nonempty[of n] by blast
qed

lemma hexBytes_upperHex: "hexBytes (upperHex bs) = Some bs"
proof (induction bs)
  case Nil
  show ?case by (simp add: upperHex_def)
next
  case (Cons b bs)
  have lt: "(of_char b :: nat) < 256" by (rule nat_of_char_less_256)
  then have "(of_char b :: nat) div 16 < 16" by arith
  then have hi: "hexValue (hexDigit (of_char b div 16)) = Some (of_char b div 16)"
    by (rule hexValue_hexDigit)
  have lo: "hexValue (hexDigit (of_char b mod 16)) = Some (of_char b mod 16)"
    by (rule hexValue_hexDigit) simp
  have "upperHex (b # bs) = hexDigit (of_char b div 16) # hexDigit (of_char b mod 16) # upperHex bs"
    by (simp add: upperHex_def)
  then show ?case using Cons hi lo by simp
qed

lemma upperHex_chars: "list_all (\<lambda>c. c \<in> set ''0123456789ABCDEF'') (upperHex bs)"
proof (induction bs)
  case Nil
  show ?case by (simp add: upperHex_def)
next
  case (Cons b bs)
  have lt: "(of_char b :: nat) < 256" by (rule nat_of_char_less_256)
  then have "(of_char b :: nat) div 16 < 16" by arith
  then have hi: "hexDigit (of_char b div 16) \<in> set ''0123456789ABCDEF''"
    using below16[of "of_char b div 16"] by (auto simp: hexDigit_def)
  have "(of_char b :: nat) mod 16 < 16" by simp
  then have lo: "hexDigit (of_char b mod 16) \<in> set ''0123456789ABCDEF''"
    using below16[of "of_char b mod 16"] by (auto simp: hexDigit_def)
  have "upperHex (b # bs) = hexDigit (of_char b div 16) # hexDigit (of_char b mod 16) # upperHex bs"
    by (simp add: upperHex_def)
  then show ?case using Cons hi lo by simp
qed

text \<open>
  Claim C7. Let the clock and the skew be whole seconds within the range where the
  code's \<open>float64\<close> arithmetic is exact (both below \<open>2 ^ 53\<close> in size, and the time
  since 1601 not negative and below 461,168,601,842 s, so that the tick count stays
  below \<open>2 ^ 62\<close>). Then the token consists of upper-case hexadecimal digits only and
  reads back, two digits per byte, as the SHA-256 digest of a string made of a decimal
  numeral followed by \<open>6A5AA1D4EAFF4E9FB37E23D68491D6F4\<close>; the numeral has no leading
  zero and denotes the skew-corrected time plus 11,644,473,600 s, rounded down to a
  multiple of 300 s and then multiplied by 10,000,000. The token depends on nothing but
  the clock and the skew, and two skew-corrected times in the same 300-second window
  give the same token.
\<close>

theorem GenerateSecMSGEC_token:
  assumes "\<bar>now\<bar> < 9007199254740992" and "\<bar>skew\<bar> < 9007199254740992"
      and "0 \<le> now + skew + 11644473600" and "now + skew + 11644473600 < 461168601842"
      and "\<bar>now'\<bar> < 9007199254740992" and "\<bar>skew'\<bar> < 9007199254740992"
      and "0 \<le> now' + skew' + 11644473600" and "now' + skew' + 11644473600 < 461168601842"
  shows "(\<exists>ticks. decimalNumeral ticks
            \<and> int (decimalValue ticks)
                = (now + skew + 11644473600 - (now + skew + 11644473600) mod 300) * 10000000
            \<and> hexBytes (GenerateSecMSGEC sha256 now skew)
                = Some (sha256 (ticks @ ''6A5AA1D4EAFF4E9FB37E23D68491D6F4'')))
       \<and> list_all (\<lambda>c. c \<in> set ''0123456789ABCDEF'') (GenerateSecMSGEC sha256 now skew)
       \<and> ((now + skew) div 300 = (now' + skew') div 300 \<longrightarrow>
            GenerateSecMSGEC sha256 now' skew' = GenerateSecMSGEC sha256 now skew)"
proof -
  define t where "t = now + skew + 11644473600"
  define n where "n = (t div 300) * 300 * 10000000"
  have n0: "0 \<le> n" using assms(3) by (simp add: n_def t_def)
  have tok: "GenerateSecMSGEC sha256 a b =
      upperHex (sha256 (decimal ((a + b + 11644473600) div 300 * 300 * 10000000)
                        @ ''6A5AA1D4EAFF4E9FB37E23D68491D6F4''))" for a b
    by (simp add: GenerateSecMSGEC_def GetUnixTimestamp_def WinEpoch_def SToNS_def
        TrustedClientToken_def Let_def)
  have dec: "decimal n = digits (nat n)" using n0 by (simp add: decimal_def)
  have floor: "t div 300 * 300 = t - t mod 300" by (simp add: minus_mod_eq_div_mult)
  have "decimalNumeral (digits (nat n))" by (rule decimalNumeral_digits)
  moreover have "int (decimalValue (digits (nat n))) = (t - t mod 300) * 10000000"
    using n0 by (simp add: decimalValue_digits n_def floor)
  moreover have "hexBytes (GenerateSecMSGEC sha256 now skew)
      = Some (sha256 (digits (nat n) @ ''6A5AA1D4EAFF4E9FB37E23D68491D6F4''))"
    unfolding tok hexBytes_upperHex using dec by (simp add: n_def t_def)
  ultimately have first: "\<exists>ticks. decimalNumeral ticks
            \<and> int (decimalValue ticks)
                = (now + skew + 11644473600 - (now + skew + 11644473600) mod 300) * 10000000
            \<and> hexBytes (GenerateSecMSGEC sha256 now skew)
                = Some (sha256 (ticks @ ''6A5AA1D4EAFF4E9FB37E23D68491D6F4''))"
    unfolding t_def by blast
  have shift: "(x + 11644473600) div 300 = x div 300 + 38814912" for x :: int
    by simp
  have "GenerateSecMSGEC sha256 now' skew' = GenerateSecMSGEC sha256 now skew"
    if "(now + skew) div 300 = (now' + skew') div 300"
    using that shift[of "now + skew"] shift[of "now' + skew'"] by (simp only: tok)
  moreover have "list_all (\<lambda>c. c \<in> set ''0123456789ABCDEF'') (GenerateSecMSGEC sha256 now skew)"
    unfolding tok by (rule upperHex_chars)
  ultimately show ?thesis using first by blast
qed

text \<open>
  14 November 2023, 22:13:20 UTC, and 99 seconds later (40 on the clock, 59 of skew):
  the same window, whose tick count is 133444734000000000, and the token that the
  SHA-256 digest of that string gives.
\<close>

theorem GenerateSecMSGEC_token_witness:
  "GenerateSecMSGEC sha256Table 1700000000 0
     = ''42301B335578FEFDAE2637DED1ABD614505D432559EC08032B82048483726AFF''
   \<and> GenerateSecMSGEC sha256Table 1700000040 59
     = ''42301B335578FEFDAE2637DED1ABD614505D432559EC08032B82048483726AFF''
   \<and> decimalNumeral ''133444734000000000''
   \<and> decimalValue ''133444734000000000'' = 133444734000000000"
proof -
  have ticks:
    "((1700000000::int) + 0 + 11644473600) div 300 * 300 * 10000000 = 133444734000000000"
    by simp
  have dec: "decimal 133444734000000000 = ''133444734000000000''"
    by (simp add: decimal_def digits.simps digit_def)
  have first: "GenerateSecMSGEC sha256Table 1700000000 0
     = ''42301B335578FEFDAE2637DED1ABD614505D432559EC08032B82048483726AFF''"
    by (simp add: GenerateSecMSGEC_def GetUnixTimestamp_def WinEpoch_def SToNS_def
        TrustedClientToken_def Let_def dec sha256Table_def upperHex_def hexDigit_def)
  have range: "\<bar>1700000000::int\<bar> < 9007199254740992" "\<bar>0::int\<bar> < 9007199254740992"
    "(0::int) \<le> 1700000000 + 0 + 11644473600" "(1700000000::int) + 0 + 11644473600 < 461168601842"
    "\<bar>1700000040::int\<bar> < 9007199254740992" "\<bar>59::int\<bar> < 9007199254740992"
    "(0::int) \<le> 1700000040 + 59 + 11644473600" "(1700000040::int) + 59 + 11644473600 < 461168601842"
    by simp_all
  have window: "((1700000000::int) + 0) div 300 = (1700000040 + 59) div 300" by simp
  have "GenerateSecMSGEC sha256Table 1700000040 59 = GenerateSecMSGEC sha256Table 1700000000 0"
    using conjunct2[OF GenerateSecMSGEC_token[OF range, of sha256Table]] window by blast
  moreover have "decimalNumeral ''133444734000000000''"
    by (simp add: decimalNumeral_def)
  moreover have "decimalValue ''133444734000000000'' = 133444734000000000"
    by (simp add: decimalValue_def)
  ultimately show ?thesis using first by simp
qed

section \<open>Connecting: the retry after a rejection\<close>

text \<open>
  Claim C8. \<open>Connect\<close> dials at most twice, and twice exactly when the first dial is
  answered with status 403 and the skew correction succeeds. When the first dial is
  answered with status 403 and the response has no \<open>Date\<close> header, or one that does
  not parse, \<open>Connect\<close> returns a \<open>SkewAdjustmentError\<close>, has dialled once, and leaves
  the client and the clock skew as they were.
\<close>

theorem Connect_retry:
  "length (dialed (Connect sha256 parseRFC1123 net c skew)) \<le> 2
   \<and> (length (dialed (Connect sha256 parseRFC1123 net c skew)) = 2 \<longleftrightarrow>
        (proxy c = [] \<or> proxyError net = None) \<and>
        (\<exists>err resp.
           dial net 0 (connectURL (GenerateSecMSGEC sha256 (clock net 0) skew) (connectID net 0))
             = DialError err (Some resp)
           \<and> StatusCode resp = 403
           \<and> fst (HandleClientResponseError parseRFC1123 (clock net 1) (Some resp) skew) = None))
   \<and> ((proxy c = [] \<or> proxyError net = None)
        \<and> dial net 0 (connectURL (GenerateSecMSGEC sha256 (clock net 0) skew) (connectID net 0))
             = DialError err0 (Some resp0)
        \<and> StatusCode resp0 = 403
        \<and> (headerGet resp0 ''Date'' = [] \<or> parseRFC1123 (headerGet resp0 ''Date'') = None)
      \<longrightarrow> (\<exists>msg. Connect sha256 parseRFC1123 net c skew =
             \<lparr>connectErr = Some (SkewAdjustmentError msg), client = c, clockSkew = skew,
              dialed = [connectURL (GenerateSecMSGEC sha256 (clock net 0) skew)
                          (connectID net 0)]\<rparr>))"
  by (auto simp: Connect_def Let_def StatusForbidden_def HandleClientResponseError_def
      ParseRFC2616Date_def
      split: dialResult.splits option.splits prod.splits sum.splits if_splits)

text \<open>
  A rejection without a \<open>Date\<close> header: one dial, the error, the skew still 0. The same
  rejection with a \<open>Date\<close> header: a second dial, with the token of the corrected time.
\<close>

theorem Connect_retry_witness:
  "\<forall>sha256.
     Connect sha256 rfc1123Example (rejectingNetwork forbiddenWithoutDate) (NewClient [] 10 60) 0 =
       \<lparr>connectErr = Some (SkewAdjustmentError ''no server date in headers''),
        client = NewClient [] 10 60, clockSkew = 0,
        dialed = [connectURL (GenerateSecMSGEC sha256 1600000000 0)
                    ''00000000000000000000000000000001'']\<rparr>
   \<and> dialed (Connect sha256 rfc1123Example (rejectingNetwork forbiddenWithDate)
               (NewClient [] 10 60) 0) =
       [connectURL (GenerateSecMSGEC sha256 1600000000 0) ''00000000000000000000000000000001'',
        connectURL (GenerateSecMSGEC sha256 1600000000 100000000)
          ''00000000000000000000000000000002'']"
proof (intro allI conjI)
  fix sha256 :: "string \<Rightarrow> string"
  let ?u = "connectURL (GenerateSecMSGEC sha256 1600000000 0) ''00000000000000000000000000000001''"
  note t = Connect_retry[of sha256 rfc1123Example "rejectingNetwork forbiddenWithoutDate"
      "NewClient [] 10 60" 0 "Errorf ''websocket: bad handshake''" forbiddenWithoutDate]
  have hyps:
    "(proxy (NewClient [] 10 60) = [] \<or> proxyError (rejectingNetwork forbiddenWithoutDate) = None)
     \<and> dial (rejectingNetwork forbiddenWithoutDate) 0
          (connectURL
             (GenerateSecMSGEC sha256 (clock (rejectingNetwork forbiddenWithoutDate) 0) 0)
             (connectID (rejectingNetwork forbiddenWithoutDate) 0))
          = DialError (Errorf ''websocket: bad handshake'') (Some forbiddenWithoutDate)
     \<and> StatusCode forbiddenWithoutDate = 403
     \<and> (headerGet forbiddenWithoutDate ''Date'' = []
          \<or> rfc1123Example (headerGet forbiddenWithoutDate ''Date'') = None)"
    by (simp add: NewClient_def rejectingNetwork_def forbiddenWithoutDate_def headerGet_def)
  from t hyps obtain msg where
    m: "Connect sha256 rfc1123Example (rejectingNetwork forbiddenWithoutDate)
          (NewClient [] 10 60) 0 =
       \<lparr>connectErr = Some (SkewAdjustmentError msg), client = NewClient [] 10 60, clockSkew = 0,
        dialed = [connectURL
                    (GenerateSecMSGEC sha256 (clock (rejectingNetwork forbiddenWithoutDate) 0) 0)
                    (connectID (rejectingNetwork forbiddenWithoutDate) 0)]\<rparr>"
    by blast
  have "connectErr (Connect sha256 rfc1123Example (rejectingNetwork forbiddenWithoutDate)
          (NewClient [] 10 60) 0) = Some (SkewAdjustmentError ''no server date in headers'')"
    by (simp add: Connect_def NewClient_def rejectingNetwork_def forbiddenWithoutDate_def
        headerGet_def HandleClientResponseError_def StatusForbidden_def Let_def)
  with m have "msg = ''no server date in headers''" by simp
  with m show
    "Connect sha256 rfc1123Example (rejectingNetwork forbiddenWithoutDate) (NewClient [] 10 60) 0 =
       \<lparr>connectErr = Some (SkewAdjustmentError ''no server date in headers''),
        client = NewClient [] 10 60, clockSkew = 0, dialed = [?u]\<rparr>"
    by (simp add: rejectingNetwork_def)
  show "dialed (Connect sha256 rfc1123Example (rejectingNetwork forbiddenWithDate)
               (NewClient [] 10 60) 0) =
       [?u, connectURL (GenerateSecMSGEC sha256 1600000000 100000000)
          ''00000000000000000000000000000002'']"
    by (simp add: Connect_def NewClient_def rejectingNetwork_def forbiddenWithDate_def
        headerGet_def HandleClientResponseError_def StatusForbidden_def Let_def
        ParseRFC2616Date_def rfc1123Example_def GetUnixTimestamp_def AdjClockSkewSeconds_def)
qed

section \<open>Streaming coordinator\<close>

lemmas stream_eval = Stream_def newCommunicate_def streamPartialText_def twoTurns_def turn_def
  NewClient_def SendCommandRequest_def SendSSMLRequest_def audioChunk_def typeChunk_def
  helloChunk_def worldChunk_def againChunk_def boundaryChunk_def Let_def

text \<open>
  Claim C1 says that a Boundary event of a second or later segment is forwarded with
  its offset increased by \<open>OffsetCompensation\<close>. The code sets \<open>OffsetCompensation\<close>
  at every \<open>turn.end\<close> and never reads it: each chunk goes to the channel as it was
  received. With the two turns above, the first segment alone leaves
  \<open>OffsetCompensation\<close> at 11,000,000 + 8,750,000 ticks, and in the stream of both
  segments the boundary \<open>Again\<close> of the second segment is forwarded with its own offset
  1,000,000, below that sum and below the offset 5,000,000 forwarded before it.
\<close>

theorem Stream_forwards_uncompensated:
  "chunks (Stream twoTurns (newCommunicate [''Hello, World!'', ''Again''] wordConfig))
     = [audioChunk ''x'', helloChunk, worldChunk, audioChunk ''y'', againChunk]
   \<and> map Offset [helloChunk, worldChunk, againChunk] = [0, 5000000, 1000000]
   \<and> OffsetCompensation
       (state (after (Stream twoTurns (newCommunicate [''Hello, World!''] wordConfig))))
     = 19750000"
  by (simp add: stream_eval)

text \<open>Whatever the state and the session, the chunks forwarded are chunks received.\<close>

lemma receiveLoop_forwards:
  "receiveLoop a st rs sent = (out, a', st', sent') \<Longrightarrow>
   set sent' \<subseteq> set sent \<union> {chunk. Inr chunk \<in> set rs}"
  by (induction a st rs sent arbitrary: out a' st' sent' rule: receiveLoop.induct)
     (auto split: if_splits)

lemma streamPartialText_forwards:
  "set (chunks (streamPartialText c s)) \<subseteq> {chunk. Inr chunk \<in> set (received s)}"
proof (cases "receiveLoop False (state c) (received s) []")
  case (fields out a' st' sent')
  from receiveLoop_forwards[OF this] show ?thesis
    using fields
    by (auto simp: streamPartialText_def Let_def
        split: option.splits sum.splits outcome.splits)
qed

lemma receiveLoop_called:
  "receiveLoop a st rs sent = (out, a', st', sent') \<Longrightarrow>
   StreamWasCalled st' = StreamWasCalled st"
  by (induction a st rs sent rule: receiveLoop.induct) (auto split: if_splits)

lemma streamPartialText_called:
  "StreamWasCalled (state (after (streamPartialText c s))) = StreamWasCalled (state c)"
  by (auto simp: streamPartialText_def Let_def
      split: option.splits sum.splits prod.splits outcome.splits
      dest: receiveLoop_called)

lemma streamTexts_called:
  "StreamWasCalled (state (after (streamTexts sessions i c ts))) = StreamWasCalled (state c)"
proof (induction ts arbitrary: i c)
  case Nil
  show ?case by simp
next
  case (Cons t ts)
  show ?case by (simp add: Let_def Cons.IH streamPartialText_called)
qed

lemma Stream_called: "StreamWasCalled (state (after (Stream sessions c)))"
  by (simp add: Stream_def streamTexts_called)

text \<open>
  Claim C5. After any call of \<open>Stream\<close> on a coordinator, whatever the sessions it met
  and however it ended, a further call of \<open>Stream\<close> fails with the error
  \<open>stream can only be called once\<close>, sends no chunk, writes no frame, and leaves the
  coordinator exactly as the first call left it.
\<close>

theorem Stream_second_call:
  "Stream sessions' (after (Stream sessions c)) =
     \<lparr>chunks = [], frames = [], ending = Failed (Errorf ''stream can only be called once''),
      after = after (Stream sessions c)\<rparr>"
  using Stream_called[of sessions c] by (simp add: Stream_def)

text \<open>The two turns streamed once, and then again on the same coordinator.\<close>

theorem Stream_second_call_witness:
  "ending (Stream twoTurns (newCommunicate [''Hello, World!'', ''Again''] wordConfig)) = Completed
   \<and> ending (Stream twoTurns
        (after (Stream twoTurns (newCommunicate [''Hello, World!'', ''Again''] wordConfig))))
     = Failed (Errorf ''stream can only be called once'')
   \<and> chunks (Stream twoTurns
        (after (Stream twoTurns (newCommunicate [''Hello, World!'', ''Again''] wordConfig))))
     = []"
proof -
  have "ending (Stream twoTurns (newCommunicate [''Hello, World!'', ''Again''] wordConfig))
      = Completed"
    by (simp add: stream_eval)
  then show ?thesis
    by (simp add: Stream_second_call[of twoTurns twoTurns
          "newCommunicate [''Hello, World!'', ''Again''] wordConfig"])
qed

text \<open>
  Claim C10. Whatever the configuration of the coordinator, boundary mode included,
  the first frame a session writes once it is connected is the \<open>speech.config\<close>
  command: the \<open>X-Timestamp\<close> header with the session's timestamp, two fixed headers,
  and a fixed JSON payload in which \<open>sentenceBoundaryEnabled\<close> is \<open>false\<close> and
  \<open>wordBoundaryEnabled\<close> is \<open>true\<close>.
\<close>

theorem command_frame_fixed:
  "connectResult s = None \<Longrightarrow>
   \<exists>rest. frames (streamPartialText (c\<lparr>ttsConfig := cfg\<rparr>) s) =
     (''X-Timestamp:'' @ commandTimestamp s @ CRLF
      @ ''Content-Type:application/json; charset=utf-8'' @ CRLF
      @ ''Path:speech.config'' @ CRLF @ CRLF
      @ ''{\"context\":{\"synthesis\":{\"audio\":{\"metadataoptions\":{''
      @ ''\"sentenceBoundaryEnabled\":\"false\",\"wordBoundaryEnabled\":\"true\"},''
      @ ''\"outputFormat\":\"audio-24khz-48kbitrate-mono-mp3\"}}}}'') # rest"
  by (auto simp: streamPartialText_def Let_def NewClient_def SendCommandRequest_def
      commandPayload_def split: option.splits sum.splits prod.splits outcome.splits)

text \<open>A coordinator configured for sentence boundaries sends the same command.\<close>

theorem command_frame_fixed_witness:
  "connectResult (twoTurns 0) = None
   \<and> (\<exists>rest. frames (streamPartialText
                ((newCommunicate [''Hello, World!''] wordConfig)\<lparr>ttsConfig := sentenceConfig\<rparr>)
                (twoTurns 0)) =
       (''X-Timestamp:Tue Nov 14 2023 22:13:20 GMT+0000 (Coordinated Universal Time)'' @ CRLF
        @ ''Content-Type:application/json; charset=utf-8'' @ CRLF
        @ ''Path:speech.config'' @ CRLF @ CRLF
        @ ''{\"context\":{\"synthesis\":{\"audio\":{\"metadataoptions\":{''
        @ ''\"sentenceBoundaryEnabled\":\"false\",\"wordBoundaryEnabled\":\"true\"},''
        @ ''\"outputFormat\":\"audio-24khz-48kbitrate-mono-mp3\"}}}}'') # rest)"
proof -
  have ok: "connectResult (twoTurns 0) = None" by (simp add: twoTurns_def turn_def)
  have ts: "commandTimestamp (twoTurns 0)
      = ''Tue Nov 14 2023 22:13:20 GMT+0000 (Coordinated Universal Time)''"
    by (simp add: twoTurns_def turn_def)
  show ?thesis
    using ok command_frame_fixed[OF ok, where c = "newCommunicate [''Hello, World!''] wordConfig"
        and cfg = sentenceConfig]
    unfolding ts by simp
qed

end
